theory Spec2Isabelle
  imports Complex_Main
begin

section \<open>JavaScript values and exceptions\<close>

text \<open>
  The backend is JavaScript on Node. A thrown exception is a value of \<open>exn\<close>; a function
  that can throw returns \<open>exn + 'a\<close> with \<open>Inl\<close> the exception. A property that may be
  \<^verbatim>\<open>undefined\<close> is an \<open>option\<close>. Strings are byte lists; a date is its number of
  milliseconds since the epoch.
\<close>

datatype exn =
    TypeError
  | RangeError
  | ValidationError string
  | DuplicateKey string
  | StoreWriteFailed
  | JsonWebTokenError string
  | TokenExpiredError

text \<open>Truthiness of an optional string: \<^verbatim>\<open>undefined\<close> and \<^verbatim>\<open>''\<close> are falsy.\<close>

fun truthy :: "string option \<Rightarrow> bool" where
  "truthy None = False"
| "truthy (Some s) = (s \<noteq> [])"

text \<open>\<^verbatim>\<open>a || b\<close> on optional strings.\<close>

definition orElse :: "string option \<Rightarrow> string option \<Rightarrow> string option" where
  "orElse a b = (if truthy a then a else b)"

definition isSpace :: "char \<Rightarrow> bool" where
  "isSpace c = (c \<in> set [CHR 0x20, CHR 0x09, CHR 0x0A, CHR 0x0B, CHR 0x0C, CHR 0x0D])"

text \<open>\<^verbatim>\<open>String.prototype.trim\<close> (the schema option \<^verbatim>\<open>trim: true\<close>).\<close>

definition trim :: "string \<Rightarrow> string" where
  "trim s = rev (dropWhile isSpace (rev (dropWhile isSpace s)))"

section \<open>RBAC configuration (config/rbac.js)\<close>

definition SUPER_ADMIN :: string where "SUPER_ADMIN = ''super_admin''"
definition ADMIN :: string where "ADMIN = ''admin''"
definition ISSUER :: string where "ISSUER = ''issuer''"
definition VERIFIER :: string where "VERIFIER = ''verifier''"
definition HOLDER :: string where "HOLDER = ''holder''"

text \<open>\<^verbatim>\<open>Object.values(ROLES)\<close>, in declaration order.\<close>

definition ROLES_values :: "string list" where
  "ROLES_values = [SUPER_ADMIN, ADMIN, ISSUER, VERIFIER, HOLDER]"

definition CERTIFICATE_CREATE :: string where "CERTIFICATE_CREATE = ''certificate:create''"
definition CERTIFICATE_READ :: string where "CERTIFICATE_READ = ''certificate:read''"
definition CERTIFICATE_READ_OWN :: string where "CERTIFICATE_READ_OWN = ''certificate:read:own''"
definition CERTIFICATE_UPDATE :: string where "CERTIFICATE_UPDATE = ''certificate:update''"
definition CERTIFICATE_DELETE :: string where "CERTIFICATE_DELETE = ''certificate:delete''"
definition CERTIFICATE_REVOKE :: string where "CERTIFICATE_REVOKE = ''certificate:revoke''"
definition CERTIFICATE_VERIFY :: string where "CERTIFICATE_VERIFY = ''certificate:verify''"
definition CERTIFICATE_EXPORT :: string where "CERTIFICATE_EXPORT = ''certificate:export''"
definition CERTIFICATE_SIGN :: string where "CERTIFICATE_SIGN = ''certificate:sign''"
definition USER_CREATE :: string where "USER_CREATE = ''user:create''"
definition USER_READ :: string where "USER_READ = ''user:read''"
definition USER_READ_OWN :: string where "USER_READ_OWN = ''user:read:own''"
definition USER_UPDATE :: string where "USER_UPDATE = ''user:update''"
definition USER_UPDATE_OWN :: string where "USER_UPDATE_OWN = ''user:update:own''"
definition USER_DELETE :: string where "USER_DELETE = ''user:delete''"
definition USER_ASSIGN_ROLE :: string where "USER_ASSIGN_ROLE = ''user:assign_role''"
definition ROLE_CREATE :: string where "ROLE_CREATE = ''role:create''"
definition ROLE_READ :: string where "ROLE_READ = ''role:read''"
definition ROLE_UPDATE :: string where "ROLE_UPDATE = ''role:update''"
definition ROLE_DELETE :: string where "ROLE_DELETE = ''role:delete''"
definition AUDIT_READ :: string where "AUDIT_READ = ''audit:read''"
definition AUDIT_EXPORT :: string where "AUDIT_EXPORT = ''audit:export''"
definition SYSTEM_CONFIG :: string where "SYSTEM_CONFIG = ''system:config''"
definition SYSTEM_BACKUP :: string where "SYSTEM_BACKUP = ''system:backup''"

text \<open>\<^verbatim>\<open>Object.values(PERMISSIONS)\<close>, in declaration order.\<close>

definition PERMISSIONS_values :: "string list" where
  "PERMISSIONS_values =
     [CERTIFICATE_CREATE, CERTIFICATE_READ, CERTIFICATE_READ_OWN, CERTIFICATE_UPDATE,
      CERTIFICATE_DELETE, CERTIFICATE_REVOKE, CERTIFICATE_VERIFY, CERTIFICATE_EXPORT,
      CERTIFICATE_SIGN,
      USER_CREATE, USER_READ, USER_READ_OWN, USER_UPDATE, USER_UPDATE_OWN, USER_DELETE,
      USER_ASSIGN_ROLE,
      ROLE_CREATE, ROLE_READ, ROLE_UPDATE, ROLE_DELETE,
      AUDIT_READ, AUDIT_EXPORT,
      SYSTEM_CONFIG, SYSTEM_BACKUP]"

text \<open>
  The object literal \<^verbatim>\<open>ROLE_PERMISSIONS\<close>: its own properties, as an association list.
  The entry of \<^verbatim>\<open>super_admin\<close> is the list of every permission constant.
\<close>

definition ROLE_PERMISSIONS :: "(string \<times> string list) list" where
  "ROLE_PERMISSIONS =
     [(SUPER_ADMIN, PERMISSIONS_values),
      (ADMIN,
        [CERTIFICATE_CREATE, CERTIFICATE_READ, CERTIFICATE_UPDATE, CERTIFICATE_DELETE,
         CERTIFICATE_REVOKE, CERTIFICATE_VERIFY, CERTIFICATE_EXPORT, CERTIFICATE_SIGN,
         USER_CREATE, USER_READ, USER_UPDATE, USER_DELETE, USER_ASSIGN_ROLE,
         ROLE_READ, AUDIT_READ, AUDIT_EXPORT]),
      (ISSUER,
        [CERTIFICATE_CREATE, CERTIFICATE_READ, CERTIFICATE_UPDATE, CERTIFICATE_REVOKE,
         CERTIFICATE_VERIFY, CERTIFICATE_EXPORT, CERTIFICATE_SIGN,
         USER_READ, AUDIT_READ]),
      (VERIFIER,
        [CERTIFICATE_READ, CERTIFICATE_VERIFY, USER_READ_OWN, USER_UPDATE_OWN]),
      (HOLDER,
        [CERTIFICATE_READ_OWN, CERTIFICATE_VERIFY, USER_READ_OWN, USER_UPDATE_OWN])]"

text \<open>
  \<^verbatim>\<open>ROLE_PERMISSIONS[role]\<close> is a property read on a plain object: an own property gives
  its array; a name that the object inherits from \<^verbatim>\<open>Object.prototype\<close> gives the inherited
  value (a function, or the prototype object for \<^verbatim>\<open>__proto__\<close>), which is truthy and is
  not an array; every other name gives \<^verbatim>\<open>undefined\<close>.
\<close>

datatype 'a property = Own 'a | Inherited | Undefined

definition objectPrototypeKeys :: "string list" where
  "objectPrototypeKeys =
     [''constructor'', ''__defineGetter__'', ''__defineSetter__'', ''hasOwnProperty'',
      ''__lookupGetter__'', ''__lookupSetter__'', ''isPrototypeOf'',
      ''propertyIsEnumerable'', ''toString'', ''valueOf'', ''__proto__'',
      ''toLocaleString'']"

definition getProperty :: "(string \<times> 'a) list \<Rightarrow> string \<Rightarrow> 'a property" where
  "getProperty obj key =
     (case map_of obj key of
        Some v \<Rightarrow> Own v
      | None \<Rightarrow> if key \<in> set objectPrototypeKeys then Inherited else Undefined)"

text \<open>
  \<^verbatim>\<open>const permissions = ROLE_PERMISSIONS[role] || []; return permissions.includes(permission);\<close>
  An inherited value is truthy, so it is kept by \<^verbatim>\<open>||\<close>, and it has no method
  \<^verbatim>\<open>includes\<close>: the call throws a TypeError.
\<close>

definition hasPermission :: "string \<Rightarrow> string \<Rightarrow> exn + bool" where
  "hasPermission role permission =
     (case getProperty ROLE_PERMISSIONS role of
        Own permissions \<Rightarrow> Inr (permission \<in> set permissions)
      | Inherited \<Rightarrow> Inl TypeError
      | Undefined \<Rightarrow> Inr (permission \<in> set []))"

section \<open>The platform: clock, randomness, configuration, library functions\<close>

text \<open>
  Everything a request reads from outside the program is a field of \<open>env\<close>: one reading
  of the clock per request, the bytes \<^verbatim>\<open>crypto.randomBytes\<close> returns, the identifier
  Mongoose gives a new document, the process environment, the request's metadata, and the
  library functions (SHA-256, HMAC-SHA256, \<^verbatim>\<open>JSON.stringify\<close>, bcrypt, the QR encoder,
  date formatting, and \<^verbatim>\<open>toString\<close> of a populated document, given its \<^verbatim>\<open>_id\<close> and the
  selected \<^verbatim>\<open>fullName\<close> and \<^verbatim>\<open>email\<close>), which the theorems hold for whatever they
  compute.
\<close>

datatype json = JString string | JNumber int | JDate int | JBool bool

record env =
  now :: int
  currentYear :: nat
  entropy :: "nat \<Rightarrow> nat"
  newObjectId :: string
  certSigningSecretEnv :: "string option"
  appBaseUrlEnv :: "string option"
  jwtSecretEnv :: "string option"
  jwtRefreshSecretEnv :: "string option"
  accessLifetime :: int
  refreshLifetime :: int
  reqIp :: "string option"
  reqUserAgent :: "string option"
  reqMethod :: "string option"
  reqPath :: "string option"
  sha256Hex :: "string \<Rightarrow> string"
  hmacSha256Hex :: "string \<Rightarrow> string \<Rightarrow> string"
  jsonStringify :: "(string \<times> json) list \<Rightarrow> string"
  bcryptHash :: "string \<Rightarrow> string"
  bcryptCompare :: "string \<Rightarrow> string \<Rightarrow> bool"
  qrToDataURL :: "(string \<Rightarrow> exn + string) option"
  toLocaleDateString :: "int \<Rightarrow> string"
  inspectDocument :: "string \<Rightarrow> string option \<Rightarrow> string option \<Rightarrow> string"

text \<open>A template literal prints \<^verbatim>\<open>undefined\<close> for a missing value.\<close>

fun str :: "string option \<Rightarrow> string" where
  "str None = ''undefined''"
| "str (Some s) = s"

definition hexChar :: "nat \<Rightarrow> char" where
  "hexChar n = ''0123456789abcdef'' ! n"

text \<open>\<^verbatim>\<open>crypto.randomBytes(n)\<close> read at offset \<open>k\<close> of the request's entropy.\<close>

definition randomBytes :: "env \<Rightarrow> nat \<Rightarrow> nat \<Rightarrow> nat list" where
  "randomBytes e k n = map (\<lambda>i. entropy e i mod 256) [k..<k + n]"

text \<open>\<^verbatim>\<open>buffer.toString('hex')\<close>.\<close>

definition toHex :: "nat list \<Rightarrow> string" where
  "toHex bytes = concat (map (\<lambda>b. [hexChar (b div 16), hexChar (b mod 16)]) bytes)"

definition upperChar :: "char \<Rightarrow> char" where
  "upperChar c =
     (case map_of (zip ''abcdefghijklmnopqrstuvwxyz'' ''ABCDEFGHIJKLMNOPQRSTUVWXYZ'') c of
        Some u \<Rightarrow> u
      | None \<Rightarrow> c)"

definition toUpperCase :: "string \<Rightarrow> string" where
  "toUpperCase s = map upperChar s"

definition hexVal :: "char \<Rightarrow> nat option" where
  "hexVal c =
     map_of (zip ''0123456789abcdefABCDEF''
       [0, 1, 2, 3, 4, 5, 6, 7, 8, 9, 10, 11, 12, 13, 14, 15, 10, 11, 12, 13, 14, 15]) c"

text \<open>\<^verbatim>\<open>Buffer.from(s, 'hex')\<close>: decoding stops at the first pair that is not hexadecimal.\<close>

fun bufferFromHex :: "string \<Rightarrow> nat list" where
  "bufferFromHex (a # b # rest) =
     (case hexVal a of
        None \<Rightarrow> []
      | Some x \<Rightarrow> (case hexVal b of None \<Rightarrow> [] | Some y \<Rightarrow> (16 * x + y) # bufferFromHex rest))"
| "bufferFromHex _ = []"

text \<open>\<^verbatim>\<open>crypto.timingSafeEqual\<close> throws a RangeError on buffers of different lengths.\<close>

definition timingSafeEqual :: "nat list \<Rightarrow> nat list \<Rightarrow> exn + bool" where
  "timingSafeEqual a b = (if length a \<noteq> length b then Inl RangeError else Inr (a = b))"

text \<open>The decimal digits of a number, as a template literal prints it.\<close>

fun showNat :: "nat \<Rightarrow> string" where
  "showNat n = (if n < 10 then [hexChar n] else showNat (n div 10) @ [hexChar (n mod 10)])"

declare showNat.simps [simp del]

section \<open>HTTP responses\<close>

text \<open>
  \<^verbatim>\<open>res.status(s).json({ success, error, code, result, message, data, ... })\<close>; a field
  the handler does not send is \<open>None\<close>.
\<close>

record 'a response =
  httpStatus :: nat
  success :: bool
  code :: "string option"
  errorText :: "string option"
  result :: "string option"
  messageText :: "string option"
  payload :: "'a option"
  extra :: "(string \<times> json option) list"

definition failure :: "nat \<Rightarrow> string option \<Rightarrow> string \<Rightarrow> 'a response" where
  "failure st c err =
     \<lparr>httpStatus = st, success = False, code = c, errorText = Some err, result = None,
      messageText = None, payload = None, extra = []\<rparr>"

definition succeeded :: "nat \<Rightarrow> string option \<Rightarrow> 'a \<Rightarrow> 'a response" where
  "succeeded st msg d =
     \<lparr>httpStatus = st, success = True, code = None, errorText = None, result = None,
      messageText = msg, payload = Some d, extra = []\<rparr>"

section \<open>The audit log (models/AuditLog.js)\<close>

definition AUDIT_ACTIONS_values :: "string list" where
  "AUDIT_ACTIONS_values =
     [''auth.login'', ''auth.logout'', ''auth.register'', ''auth.login_failed'',
      ''auth.account_locked'', ''auth.password_reset'', ''auth.token_refresh'',
      ''certificate.create'', ''certificate.view'', ''certificate.update'',
      ''certificate.delete'', ''certificate.revoke'', ''certificate.sign'',
      ''certificate.verify'', ''certificate.export'', ''certificate.verify_failed'',
      ''certificate.access_denied'',
      ''user.create'', ''user.update'', ''user.delete'', ''user.role_assign'',
      ''user.activate'', ''user.deactivate'',
      ''security.unauthorized'', ''security.forbidden'', ''security.rate_limit'',
      ''security.suspicious_activity'']"

definition AUDIT_SEVERITY_values :: "string list" where
  "AUDIT_SEVERITY_values = [''info'', ''warning'', ''critical'', ''error'']"

text \<open>The argument of \<^verbatim>\<open>AuditLog.log\<close>.\<close>

record auditData =
  d_action :: "string option"
  d_severity :: "string option"
  d_userId :: "string option"
  d_userEmail :: "string option"
  d_userRole :: "string option"
  d_ipAddress :: "string option"
  d_userAgent :: "string option"
  d_method :: "string option"
  d_path :: "string option"
  d_resource :: "string option"
  d_resourceId :: "string option"
  d_resourceName :: "string option"
  d_success :: "bool option"
  d_errorMessage :: "string option"
  d_statusCode :: "nat option"
  d_details :: "(string \<times> json option) list option"
  d_changes :: "((string \<times> json option) list \<times> (string \<times> json option) list) option"

text \<open>\<^verbatim>\<open>{ action, ...getRequestMeta(req) }\<close>: the fields every call site starts from.\<close>

definition auditOf :: "env \<Rightarrow> string \<Rightarrow> auditData" where
  "auditOf e act =
     \<lparr>d_action = Some act, d_severity = None, d_userId = None, d_userEmail = None,
      d_userRole = None, d_ipAddress = reqIp e, d_userAgent = reqUserAgent e,
      d_method = reqMethod e, d_path = reqPath e, d_resource = None, d_resourceId = None,
      d_resourceName = None, d_success = None, d_errorMessage = None, d_statusCode = None,
      d_details = None, d_changes = None\<rparr>"

record auditEntry =
  a_action :: "string option"
  a_severity :: "string option"
  a_performedBy :: "string option"
  a_performedByEmail :: "string option"
  a_performedByRole :: "string option"
  a_targetResource :: "string option"
  a_targetId :: "string option"
  a_targetName :: "string option"
  a_ipAddress :: "string option"
  a_userAgent :: "string option"
  a_requestMethod :: "string option"
  a_requestPath :: "string option"
  a_success :: bool
  a_errorMessage :: "string option"
  a_statusCode :: "nat option"
  a_details :: "(string \<times> json option) list"
  a_changes :: "((string \<times> json option) list \<times> (string \<times> json option) list) option"
  a_timestamp :: int

text \<open>
  The audit collection. \<open>writable = False\<close> is a store whose every write fails (the
  database is unreachable).
\<close>

record auditStore =
  entries :: "auditEntry list"
  writable :: bool

text \<open>\<^verbatim>\<open>new this({ ... })\<close> in \<^verbatim>\<open>auditSchema.statics.log\<close>.\<close>

definition newAuditEntry :: "env \<Rightarrow> auditData \<Rightarrow> auditEntry" where
  "newAuditEntry e d =
     \<lparr>a_action = d_action d,
      a_severity = orElse (d_severity d) (Some ''info''),
      a_performedBy = d_userId d,
      a_performedByEmail = d_userEmail d,
      a_performedByRole = d_userRole d,
      a_targetResource = d_resource d,
      a_targetId = d_resourceId d,
      a_targetName = d_resourceName d,
      a_ipAddress = d_ipAddress d,
      a_userAgent = d_userAgent d,
      a_requestMethod = d_method d,
      a_requestPath = d_path d,
      a_success = (case d_success d of None \<Rightarrow> True | Some b \<Rightarrow> b),
      a_errorMessage = d_errorMessage d,
      a_statusCode = d_statusCode d,
      a_details = (case d_details d of None \<Rightarrow> [] | Some ds \<Rightarrow> ds),
      a_changes = d_changes d,
      a_timestamp = now e\<rparr>"

text \<open>
  \<^verbatim>\<open>entry.save()\<close>: the schema requires \<^verbatim>\<open>action\<close> to be one of the audit actions and
  \<^verbatim>\<open>severity\<close> one of the severities; then the write itself can fail.
\<close>

definition auditSave :: "auditEntry \<Rightarrow> auditStore \<Rightarrow> exn + auditStore" where
  "auditSave entry store =
     (if \<not> (case a_action entry of None \<Rightarrow> False | Some a \<Rightarrow> a \<in> set AUDIT_ACTIONS_values)
        then Inl (ValidationError ''action'')
      else if \<not> (case a_severity entry of None \<Rightarrow> True | Some s \<Rightarrow> s \<in> set AUDIT_SEVERITY_values)
        then Inl (ValidationError ''severity'')
      else if \<not> writable store then Inl StoreWriteFailed
      else Inr (store\<lparr>entries := entries store @ [entry]\<rparr>))"

text \<open>The body of the \<^verbatim>\<open>try\<close> block of \<^verbatim>\<open>log\<close>.\<close>

definition logTry :: "env \<Rightarrow> auditData \<Rightarrow> auditStore \<Rightarrow> exn + (auditEntry \<times> auditStore)" where
  "logTry e d store =
     (let entry = newAuditEntry e d in
      case auditSave entry store of
        Inl err \<Rightarrow> Inl err
      | Inr store' \<Rightarrow> Inr (entry, store'))"

text \<open>
  \<^verbatim>\<open>log\<close>: the \<^verbatim>\<open>catch\<close> block prints the error to the console and returns
  \<^verbatim>\<open>undefined\<close>. The result is of type \<open>exn + _\<close> as that of every asynchronous call a
  handler awaits; the exception of the \<^verbatim>\<open>try\<close> block ends in the \<^verbatim>\<open>catch\<close>.
\<close>

definition log :: "env \<Rightarrow> auditData \<Rightarrow> auditStore \<Rightarrow> exn + (auditEntry option \<times> auditStore)" where
  "log e d store =
     (case logTry e d store of
        Inl err \<Rightarrow> Inr (None, store)
      | Inr (entry, store') \<Rightarrow> Inr (Some entry, store'))"

section \<open>Users (models/User.js)\<close>

text \<open>
  The fields of the user schema that the handlers read or write. \<open>uid\<close> is \<^verbatim>\<open>_id\<close>.
  The store holds whole documents; that \<^verbatim>\<open>password\<close> is not selected by default only
  affects what a response prints.
\<close>

record user =
  uid :: string
  fullName :: "string option"
  email :: "string option"
  password :: "string option"
  role :: string
  isActive :: bool
  lastLogin :: "int option"
  loginAttempts :: int
  lockUntil :: "int option"
  organization :: "string option"
  department :: "string option"
  nationalId :: "string option"
  phoneNumber :: "string option"
  createdBy :: "string option"

section \<open>Certificates (models/Certificate.js)\<close>

definition CERTIFICATE_TYPES_values :: "string list" where
  "CERTIFICATE_TYPES_values =
     [''academic'', ''professional'', ''training'', ''achievement'', ''medical'',
      ''government'', ''other'']"

definition CERTIFICATE_STATUS_values :: "string list" where
  "CERTIFICATE_STATUS_values =
     [''draft'', ''pending'', ''active'', ''expired'', ''revoked'', ''suspended'']"

text \<open>The enum of \<^verbatim>\<open>verificationHistory[].result\<close> in the schema.\<close>

definition HISTORY_RESULT_values :: "string list" where
  "HISTORY_RESULT_values = [''valid'', ''invalid'', ''expired'', ''revoked'']"

record historyEntry =
  verifiedBy :: "string option"
  verifiedAt :: int
  h_ipAddress :: "string option"
  h_userAgent :: "string option"
  h_result :: "string option"

text \<open>
  The fields of the certificate schema that the handlers and hooks read or write, and those
  with a validator. \<open>oid\<close> is \<^verbatim>\<open>_id\<close>, \<open>certType\<close> is \<^verbatim>\<open>type\<close>. Left out, as no
  handler branches on them and no validator can reject them: skills, grade, duration, tags,
  metadata, attachments, template data, access list, signatureAlgorithm, publicKey,
  suspendedAt. Values have the types of the schema (the casts Mongoose applies to strings
  are not modelled), and the store holds whole documents: that \<^verbatim>\<open>digitalSignature\<close> is
  not selected by default only affects what a response prints. References are kept as
  identifiers; \<^verbatim>\<open>populate\<close> is modelled where a handler reads the referenced document.
\<close>

record certificate =
  oid :: string
  certificateId :: "string option"
  serialNumber :: "string option"
  title :: "string option"
  description :: "string option"
  certType :: "string option"
  status :: string
  holder :: "string option"
  holderName :: "string option"
  holderNationalId :: "string option"
  issuedBy :: "string option"
  issuerName :: "string option"
  issuingOrganization :: "string option"
  issuingDepartment :: "string option"
  issuedAt :: int
  expiresAt :: "int option"
  revokedAt :: "int option"
  revokedBy :: "string option"
  revocationReason :: "string option"
  digitalSignature :: "string option"
  checksum :: "string option"
  qrCode :: "string option"
  verificationUrl :: "string option"
  verificationToken :: "string option"
  score :: "rat option"
  credits :: "rat option"
  isPublic :: bool
  verificationHistory :: "historyEntry list"

text \<open>The database: the three collections.\<close>

record db =
  users :: "user list"
  certs :: "certificate list"
  audit :: auditStore

text \<open>
  The schema's validators, as the list of the paths that fail. \<^verbatim>\<open>required\<close> on a string
  rejects \<^verbatim>\<open>undefined\<close> and the empty string.
\<close>

definition maxlength :: "nat \<Rightarrow> string option \<Rightarrow> bool" where
  "maxlength n v = (case v of None \<Rightarrow> True | Some s \<Rightarrow> length s \<le> n)"

definition historyErrors :: "historyEntry \<Rightarrow> string list" where
  "historyErrors h =
     (case h_result h of
        None \<Rightarrow> []
      | Some r \<Rightarrow> if r \<in> set HISTORY_RESULT_values then [] else [''verificationHistory.result''])"

definition schemaErrors :: "certificate \<Rightarrow> string list" where
  "schemaErrors c =
     (if truthy (title c) \<and> maxlength 200 (title c) then [] else [''title'']) @
     (if maxlength 1000 (description c) then [] else [''description'']) @
     (if (case certType c of None \<Rightarrow> False | Some t \<Rightarrow> t \<in> set CERTIFICATE_TYPES_values)
        then [] else [''type'']) @
     (if status c \<in> set CERTIFICATE_STATUS_values then [] else [''status'']) @
     (if holder c = None then [''holder''] else []) @
     (if truthy (holderName c) then [] else [''holderName'']) @
     (if issuedBy c = None then [''issuedBy''] else []) @
     (if truthy (issuerName c) then [] else [''issuerName'']) @
     (if truthy (issuingOrganization c) then [] else [''issuingOrganization'']) @
     (if maxlength 500 (revocationReason c) then [] else [''revocationReason'']) @
     (if (case score c of None \<Rightarrow> True | Some x \<Rightarrow> 0 \<le> x \<and> x \<le> 100) then [] else [''score'']) @
     (if (case credits c of None \<Rightarrow> True | Some x \<Rightarrow> 0 \<le> x) then [] else [''credits'']) @
     concat (map historyErrors (verificationHistory c))"

text \<open>
  \<^verbatim>\<open>certificateSchema.pre('save')\<close>. The three identifiers are generated only when the field
  is falsy; the verification URL and the checksum are assigned on every save. The three calls
  of \<^verbatim>\<open>randomBytes\<close> read disjoint parts of the entropy. \<open>holderText\<close> is the value of
  \<^verbatim>\<open>this.holder?.toString()\<close> on the document in memory: the stored identifier, or, when
  the handler populated \<^verbatim>\<open>holder\<close>, the text of the referenced user document
  (\<^verbatim>\<open>undefined\<close> when that user is gone).
\<close>

definition checksumOf :: "env \<Rightarrow> string option \<Rightarrow> certificate \<Rightarrow> string" where
  "checksumOf e holderText c =
     sha256Hex e (jsonStringify e
       ((case title c of None \<Rightarrow> [] | Some v \<Rightarrow> [(''title'', JString v)]) @
        (case holderText of None \<Rightarrow> [] | Some v \<Rightarrow> [(''holder'', JString v)]) @
        (case holderName c of None \<Rightarrow> [] | Some v \<Rightarrow> [(''holderName'', JString v)]) @
        (case issuingOrganization c of None \<Rightarrow> [] | Some v \<Rightarrow> [(''issuingOrganization'', JString v)]) @
        [(''issuedAt'', JDate (issuedAt c))] @
        (case certType c of None \<Rightarrow> [] | Some v \<Rightarrow> [(''type'', JString v)])))"

text \<open>
  The holder as \<^verbatim>\<open>populate('holder', 'fullName email')\<close> leaves it on the document in
  memory, printed.
\<close>

definition populatedHolderText :: "env \<Rightarrow> user list \<Rightarrow> certificate \<Rightarrow> string option" where
  "populatedHolderText e us c =
     map_option (\<lambda>u. inspectDocument e (uid u) (fullName u) (email u))
       (Option.bind (holder c) (\<lambda>h. find (\<lambda>u. uid u = h) us))"

definition preSave :: "env \<Rightarrow> string option \<Rightarrow> certificate \<Rightarrow> certificate" where
  "preSave e holderText c0 =
     (let c1 = (if \<not> truthy (certificateId c0)
                then c0\<lparr>certificateId :=
                       Some (''CERT-'' @ showNat (currentYear e) @ ''-'' @
                             toUpperCase (toHex (randomBytes e 0 4)))\<rparr>
                else c0);
          c2 = (if \<not> truthy (serialNumber c1)
                then c1\<lparr>serialNumber := Some (toUpperCase (toHex (randomBytes e 4 8)))\<rparr>
                else c1);
          c3 = (if \<not> truthy (verificationToken c2)
                then c2\<lparr>verificationToken := Some (toHex (randomBytes e 12 32))\<rparr>
                else c2);
          baseUrl = (case orElse (appBaseUrlEnv e) (Some ''http://localhost:3000'') of
                       None \<Rightarrow> [] | Some u \<Rightarrow> u);
          c4 = c3\<lparr>verificationUrl := Some (baseUrl @ ''/verify/'' @ str (verificationToken c3))\<rparr>
      in c4\<lparr>checksum := Some (checksumOf e holderText c4)\<rparr>)"

text \<open>
  \<^verbatim>\<open>certificate.save()\<close>: validation (of a populated path, against the stored identifier),
  then the pre-save hook, then the write of the paths that changed. The write
  of a document whose \<^verbatim>\<open>certificateId\<close> or \<^verbatim>\<open>serialNumber\<close> is that of another document
  fails on the unique index. A document whose \<^verbatim>\<open>_id\<close> is in the collection replaces the
  stored one; a new one is appended.
\<close>

definition clashes :: "certificate \<Rightarrow> certificate list \<Rightarrow> bool" where
  "clashes c cs =
     list_ex (\<lambda>d. oid d \<noteq> oid c \<and>
                (certificateId d = certificateId c \<or> serialNumber d = serialNumber c)) cs"

definition upsert :: "certificate \<Rightarrow> certificate list \<Rightarrow> certificate list" where
  "upsert c cs =
     (if list_ex (\<lambda>d. oid d = oid c) cs
      then map (\<lambda>d. if oid d = oid c then c else d) cs
      else cs @ [c])"

definition certSave ::
  "env \<Rightarrow> string option \<Rightarrow> certificate \<Rightarrow> certificate list \<Rightarrow>
   exn + (certificate \<times> certificate list)" where
  "certSave e holderText c cs =
     (case schemaErrors c of
        p # ps \<Rightarrow> Inl (ValidationError p)
      | [] \<Rightarrow>
          (let c' = preSave e holderText c in
           if clashes c' cs then Inl (DuplicateKey ''certificate'')
           else Inr (c', upsert c' cs)))"

text \<open>\<^verbatim>\<open>methods.signCertificate\<close>: the signature, which the method also stores.\<close>

definition signingPayload :: "certificate \<Rightarrow> string" where
  "signingPayload c =
     str (certificateId c) @ ''|'' @ str (serialNumber c) @ ''|'' @ str (checksum c)"

definition signCertificate :: "env \<Rightarrow> string \<Rightarrow> certificate \<Rightarrow> string" where
  "signCertificate e secretKey c = hmacSha256Hex e secretKey (signingPayload c)"

text \<open>\<^verbatim>\<open>methods.verifySignature\<close>.\<close>

definition verifySignature :: "env \<Rightarrow> string \<Rightarrow> certificate \<Rightarrow> exn + bool" where
  "verifySignature e secretKey c =
     (case digitalSignature c of
        None \<Rightarrow> Inr False
      | Some sig \<Rightarrow>
          if sig = [] then Inr False
          else timingSafeEqual (bufferFromHex sig)
                 (bufferFromHex (hmacSha256Hex e secretKey (signingPayload c))))"

text \<open>The virtual \<^verbatim>\<open>isExpired\<close>: \<^verbatim>\<open>this.expiresAt && this.expiresAt < new Date()\<close>.\<close>

definition isExpired :: "env \<Rightarrow> certificate \<Rightarrow> bool" where
  "isExpired e c = (case expiresAt c of None \<Rightarrow> False | Some t \<Rightarrow> t < now e)"

definition findById :: "string \<Rightarrow> certificate list \<Rightarrow> certificate option" where
  "findById i cs = find (\<lambda>c. oid c = i) cs"

definition findByToken :: "string \<Rightarrow> certificate list \<Rightarrow> certificate option" where
  "findByToken t cs = find (\<lambda>c. verificationToken c = Some t) cs"

definition findUserById :: "string \<Rightarrow> user list \<Rightarrow> user option" where
  "findUserById i us = find (\<lambda>u. uid u = i) us"

definition findUserByEmail :: "string \<Rightarrow> user list \<Rightarrow> user option" where
  "findUserByEmail m us = find (\<lambda>u. email u = Some m) us"

definition SIGNING_SECRET :: "env \<Rightarrow> string" where
  "SIGNING_SECRET e =
     (case orElse (certSigningSecretEnv e) (Some ''cert-signing-secret-2024'') of
        None \<Rightarrow> [] | Some k \<Rightarrow> k)"

section \<open>Certificate handlers (controllers/certificateController.js)\<close>

text \<open>
  A handler takes the platform, the authenticated caller (\<^verbatim>\<open>req.user\<close>), the request's
  parameters and the database, and returns the response with the database it leaves. Every
  handler body is a \<^verbatim>\<open>try\<close> block whose \<^verbatim>\<open>catch\<close> answers 500: an exception of a
  call inside it ends there, with whatever was written before it.
\<close>

record certBody =
  b_title :: "string option"
  b_description :: "string option"
  b_type :: "string option"
  b_holderEmail :: "string option"
  b_holderName :: "string option"
  b_holderNationalId :: "string option"
  b_holderId :: "string option"
  b_issuingOrganization :: "string option"
  b_issuingDepartment :: "string option"
  b_expiresAt :: "int option"
  b_score :: "rat option"
  b_credits :: "rat option"
  b_isPublic :: "bool option"

text \<open>
  The holder of the new certificate: looked up by email when an email and no id is given.
  \<open>None\<close> is the lookup that finds no user.
\<close>

definition resolveHolder ::
  "certBody \<Rightarrow> user list \<Rightarrow> (string option \<times> string option \<times> string option) option" where
  "resolveHolder body us =
     (if truthy (b_holderEmail body) \<and> \<not> truthy (b_holderId body)
      then (case findUserByEmail (str (b_holderEmail body)) us of
              None \<Rightarrow> None
            | Some h \<Rightarrow>
                Some (Some (uid h),
                      orElse (b_holderName body) (fullName h),
                      orElse (b_holderNationalId body) (nationalId h)))
      else Some (b_holderId body, b_holderName body, b_holderNationalId body))"

text \<open>
  \<^verbatim>\<open>new Certificate({ ..., status: 'pending' })\<close>. The schema trims title, description,
  issuing organization and department; \<^verbatim>\<open>issuedAt\<close> defaults to the clock.
\<close>

definition newCertificate ::
  "env \<Rightarrow> user \<Rightarrow> certBody \<Rightarrow> string option \<Rightarrow> string option \<Rightarrow> string option \<Rightarrow> certificate" where
  "newCertificate e caller body holderId finalHolderName finalHolderNationalId =
     \<lparr>oid = newObjectId e,
      certificateId = None,
      serialNumber = None,
      title = map_option trim (b_title body),
      description = map_option trim (b_description body),
      certType = b_type body,
      status = ''pending'',
      holder = holderId,
      holderName = orElse finalHolderName (Some ''Unknown''),
      holderNationalId = finalHolderNationalId,
      issuedBy = Some (uid caller),
      issuerName = fullName caller,
      issuingOrganization =
        map_option trim (orElse (b_issuingOrganization body) (organization caller)),
      issuingDepartment =
        map_option trim (orElse (b_issuingDepartment body) (department caller)),
      issuedAt = now e,
      expiresAt = b_expiresAt body,
      revokedAt = None,
      revokedBy = None,
      revocationReason = None,
      digitalSignature = None,
      checksum = None,
      qrCode = None,
      verificationUrl = None,
      verificationToken = None,
      score = b_score body,
      credits = b_credits body,
      isPublic = (case b_isPublic body of None \<Rightarrow> False | Some b \<Rightarrow> b),
      verificationHistory = []\<rparr>"

text \<open>The QR code: skipped when the module is missing, and a failure of the encoder is only logged.\<close>

definition withQr :: "env \<Rightarrow> certificate \<Rightarrow> certificate" where
  "withQr e c =
     (case qrToDataURL e of
        None \<Rightarrow> c
      | Some encode \<Rightarrow>
          (case encode (jsonStringify e
                  ((case certificateId c of None \<Rightarrow> [] | Some v \<Rightarrow> [(''id'', JString v)]) @
                   (case serialNumber c of None \<Rightarrow> [] | Some v \<Rightarrow> [(''serial'', JString v)]) @
                   (case verificationUrl c of None \<Rightarrow> [] | Some v \<Rightarrow> [(''verifyUrl'', JString v)]) @
                   (case holderName c of None \<Rightarrow> [] | Some v \<Rightarrow> [(''holder'', JString v)]) @
                   (case issuingOrganization c of None \<Rightarrow> [] | Some v \<Rightarrow> [(''issuer'', JString v)]) @
                   [(''issuedAt'', JDate (issuedAt c))])) of
             Inl err \<Rightarrow> c
           | Inr url \<Rightarrow> c\<lparr>qrCode := Some url\<rparr>))"

text \<open>
  The block \<^verbatim>\<open>if (hasPermission(req.user.role, PERMISSIONS.CERTIFICATE_SIGN)) { ... }\<close> of
  \<^verbatim>\<open>createCertificate\<close>, run on the certificate the first save returned.
\<close>

definition autoSign ::
  "env \<Rightarrow> user \<Rightarrow> certificate \<Rightarrow> certificate list \<Rightarrow> exn + (certificate \<times> certificate list)" where
  "autoSign e caller c cs =
     (case hasPermission (role caller) CERTIFICATE_SIGN of
        Inl err \<Rightarrow> Inl err
      | Inr allowed \<Rightarrow>
          if allowed
          then certSave e (holder c)
                 (withQr e (c\<lparr>digitalSignature := Some (signCertificate e (SIGNING_SECRET e) c),
                              status := ''active''\<rparr>)) cs
          else Inr (c, cs))"

definition createFailed :: "certificate response" where
  "createFailed = failure 500 (Some ''CREATE_FAILED'') ''Failed to create certificate.''"

definition createCertificate :: "env \<Rightarrow> user \<Rightarrow> certBody \<Rightarrow> db \<Rightarrow> certificate response \<times> db" where
  "createCertificate e caller body d =
     (case resolveHolder body (users d) of
        None \<Rightarrow>
          (failure 404 (Some ''HOLDER_NOT_FOUND'')
             (''User with email '' @ str (b_holderEmail body) @ '' not found.''), d)
      | Some (holderId, finalHolderName, finalHolderNationalId) \<Rightarrow>
          if \<not> truthy holderId
          then (failure 400 (Some ''HOLDER_REQUIRED'')
                  ''Certificate holder is required. Provide holderId or holderEmail.'', d)
          else
            (case certSave e holderId
                    (newCertificate e caller body holderId finalHolderName finalHolderNationalId)
                    (certs d) of
               Inl err \<Rightarrow> (createFailed, d)
             | Inr (c1, cs1) \<Rightarrow>
                 (case autoSign e caller c1 cs1 of
                    Inl err \<Rightarrow> (createFailed, d\<lparr>certs := cs1\<rparr>)
                  | Inr (c2, cs2) \<Rightarrow>
                      (case log e
                              ((auditOf e ''certificate.create'')
                                 \<lparr>d_userId := Some (uid caller),
                                  d_userEmail := email caller,
                                  d_userRole := Some (role caller),
                                  d_resource := Some ''certificate'',
                                  d_resourceId := Some (oid c2),
                                  d_resourceName := title c2,
                                  d_details :=
                                    Some [(''certificateId'', map_option JString (certificateId c2)),
                                          (''type'', map_option JString (certType c2)),
                                          (''holder'', map_option JString (holderName c2)),
                                          (''status'', Some (JString (status c2)))]\<rparr>)
                              (audit d) of
                         Inl err \<Rightarrow> (createFailed, d\<lparr>certs := cs2\<rparr>)
                       | Inr (logged, a') \<Rightarrow>
                           (succeeded 201 (Some ''Certificate created successfully.'') c2,
                            d\<lparr>certs := cs2, audit := a'\<rparr>)))))"

text \<open>\<^verbatim>\<open>reason || 'No reason provided'\<close>, trimmed by the schema when it is assigned.\<close>

definition reasonOrDefault :: "string option \<Rightarrow> string" where
  "reasonOrDefault reason =
     trim (case orElse reason (Some ''No reason provided'') of None \<Rightarrow> [] | Some r \<Rightarrow> r)"

definition revokeFailed :: "certificate response" where
  "revokeFailed =
     \<lparr>httpStatus = 500, success = False, code = None,
      errorText = Some ''Failed to revoke certificate.'', result = None, messageText = None,
      payload = None, extra = []\<rparr>"

definition revokeCertificate ::
  "env \<Rightarrow> user \<Rightarrow> string \<Rightarrow> string option \<Rightarrow> db \<Rightarrow> certificate response \<times> db" where
  "revokeCertificate e caller i reason d =
     (case findById i (certs d) of
        None \<Rightarrow> (failure 404 (Some ''CERT_NOT_FOUND'') ''Certificate not found.'', d)
      | Some c \<Rightarrow>
          if status c = ''revoked''
          then (failure 400 (Some ''ALREADY_REVOKED'') ''Certificate is already revoked.'', d)
          else
            (case certSave e (holder c)
                    (c\<lparr>status := ''revoked'',
                       revokedAt := Some (now e),
                       revokedBy := Some (uid caller),
                       revocationReason := Some (reasonOrDefault reason)\<rparr>)
                    (certs d) of
               Inl err \<Rightarrow> (revokeFailed, d)
             | Inr (c', cs') \<Rightarrow>
                 (case log e
                         ((auditOf e ''certificate.revoke'')
                            \<lparr>d_severity := Some ''critical'',
                             d_userId := Some (uid caller),
                             d_userEmail := email caller,
                             d_userRole := Some (role caller),
                             d_resource := Some ''certificate'',
                             d_resourceId := Some (oid c'),
                             d_resourceName := title c',
                             d_details :=
                               Some [(''certificateId'', map_option JString (certificateId c')),
                                     (''reason'', map_option JString reason),
                                     (''previousStatus'', Some (JString (status c)))]\<rparr>)
                         (audit d) of
                    Inl err \<Rightarrow> (revokeFailed, d\<lparr>certs := cs'\<rparr>)
                  | Inr (logged, a') \<Rightarrow>
                      (succeeded 200 (Some ''Certificate revoked successfully.'') c',
                       d\<lparr>certs := cs', audit := a'\<rparr>))))"

text \<open>
  The chain of \<^verbatim>\<open>if\<close>/\<^verbatim>\<open>else if\<close> of \<^verbatim>\<open>verifyCertificate\<close> that assigns
  \<^verbatim>\<open>verificationResult\<close> and \<^verbatim>\<open>message\<close>; \<^verbatim>\<open>verifySignature\<close> can throw.
\<close>

definition verificationOutcome :: "env \<Rightarrow> certificate \<Rightarrow> exn + (string \<times> string)" where
  "verificationOutcome e c =
     (if status c = ''revoked''
        then Inr (''revoked'',
                  ''Certificate has been revoked. Reason: '' @ str (revocationReason c))
      else if status c = ''suspended''
        then Inr (''suspended'', ''Certificate is currently suspended.'')
      else if isExpired e c
        then Inr (''expired'',
                  ''Certificate expired on '' @
                  (case expiresAt c of None \<Rightarrow> [] | Some t \<Rightarrow> toLocaleDateString e t) @ ''.'')
      else if status c \<noteq> ''active''
        then Inr (''invalid'', ''Certificate is not active.'')
      else if truthy (digitalSignature c)
        then (case verifySignature e (SIGNING_SECRET e) c of
                Inl err \<Rightarrow> Inl err
              | Inr isSignatureValid \<Rightarrow>
                  if \<not> isSignatureValid
                  then Inr (''invalid'',
                            ''Certificate signature verification failed. Data may have been tampered.'')
                  else Inr (''valid'', ''Certificate is valid and authentic.''))
      else Inr (''valid'', ''Certificate is valid and authentic.''))"

record verifySummary =
  v_certificateId :: "string option"
  v_serialNumber :: "string option"
  v_title :: "string option"
  v_type :: "string option"
  v_status :: string
  v_holderName :: "string option"
  v_issuingOrganization :: "string option"
  v_issuedAt :: int
  v_expiresAt :: "int option"
  v_revokedAt :: "int option"
  v_revocationReason :: "string option"
  v_isValid :: bool
  v_verifiedAt :: int

definition summaryOf :: "env \<Rightarrow> certificate \<Rightarrow> string \<Rightarrow> verifySummary" where
  "summaryOf e c verificationResult =
     \<lparr>v_certificateId = certificateId c,
      v_serialNumber = serialNumber c,
      v_title = title c,
      v_type = certType c,
      v_status = status c,
      v_holderName = holderName c,
      v_issuingOrganization = issuingOrganization c,
      v_issuedAt = issuedAt c,
      v_expiresAt = expiresAt c,
      v_revokedAt = revokedAt c,
      v_revocationReason = revocationReason c,
      v_isValid = (verificationResult = ''valid''),
      v_verifiedAt = now e\<rparr>"

definition verifyFailed :: "verifySummary response" where
  "verifyFailed =
     \<lparr>httpStatus = 500, success = False, code = None,
      errorText = Some ''Verification service error.'', result = Some ''error'',
      messageText = None, payload = None, extra = []\<rparr>"

text \<open>
  \<^verbatim>\<open>verifyCertificate\<close>, the public endpoint: \<open>reqUser\<close> is \<^verbatim>\<open>req.user\<close>, which no
  middleware sets on the public route.
\<close>

definition verifyCertificate ::
  "env \<Rightarrow> user option \<Rightarrow> string \<Rightarrow> db \<Rightarrow> verifySummary response \<times> db" where
  "verifyCertificate e reqUser token d =
     (case findByToken token (certs d) of
        None \<Rightarrow>
          (case log e
                  ((auditOf e ''certificate.verify_failed'')
                     \<lparr>d_severity := Some ''warning'',
                      d_success := Some False,
                      d_details := Some [(''token'', Some (JString token)),
                                         (''reason'', Some (JString ''Certificate not found''))]\<rparr>)
                  (audit d) of
             Inl err \<Rightarrow> (verifyFailed, d)
           | Inr (logged, a') \<Rightarrow>
               ((failure 404 (Some ''CERT_NOT_FOUND'') ''Certificate not found.'')
                  \<lparr>result := Some ''invalid''\<rparr>,
                d\<lparr>audit := a'\<rparr>))
      | Some c \<Rightarrow>
          (case verificationOutcome e c of
             Inl err \<Rightarrow> (verifyFailed, d)
           | Inr (verificationResult, message) \<Rightarrow>
               (case certSave e (populatedHolderText e (users d) c)
                       (c\<lparr>verificationHistory := verificationHistory c @
                            [\<lparr>verifiedBy = map_option uid reqUser,
                              verifiedAt = now e,
                              h_ipAddress = reqIp e,
                              h_userAgent = reqUserAgent e,
                              h_result = Some verificationResult\<rparr>]\<rparr>)
                       (certs d) of
                  Inl err \<Rightarrow> (verifyFailed, d)
                | Inr (c', cs') \<Rightarrow>
                    (case log e
                            ((auditOf e ''certificate.verify'')
                               \<lparr>d_userId := map_option uid reqUser,
                                d_userEmail := Option.bind reqUser email,
                                d_userRole := map_option role reqUser,
                                d_resource := Some ''certificate'',
                                d_resourceId := Some (oid c'),
                                d_resourceName := title c',
                                d_success := Some (verificationResult = ''valid''),
                                d_details :=
                                  Some [(''result'', Some (JString verificationResult)),
                                        (''certificateId'', map_option JString (certificateId c'))]\<rparr>)
                            (audit d) of
                       Inl err \<Rightarrow> (verifyFailed, d\<lparr>certs := cs'\<rparr>)
                     | Inr (logged, a') \<Rightarrow>
                         (\<lparr>httpStatus = 200, success = True, code = None, errorText = None,
                           result = Some verificationResult, messageText = Some message,
                           payload = Some (summaryOf e c' verificationResult), extra = []\<rparr>,
                          d\<lparr>certs := cs', audit := a'\<rparr>)))))"

definition fetchFailed :: "certificate response" where
  "fetchFailed =
     \<lparr>httpStatus = 500, success = False, code = None,
      errorText = Some ''Failed to fetch certificate.'', result = None, messageText = None,
      payload = None, extra = []\<rparr>"

text \<open>
  The ownership test of \<^verbatim>\<open>getCertificate\<close>:
  \<^verbatim>\<open>!hasPermission(role, CERTIFICATE_READ) && hasPermission(role, CERTIFICATE_READ_OWN)\<close>,
  the second call made only when the first returned false.
\<close>

definition ownOnly :: "string \<Rightarrow> exn + bool" where
  "ownOnly r =
     (case hasPermission r CERTIFICATE_READ of
        Inl err \<Rightarrow> Inl err
      | Inr canRead \<Rightarrow> if canRead then Inr False else hasPermission r CERTIFICATE_READ_OWN)"

text \<open>
  \<^verbatim>\<open>getCertificate\<close>. The holder is populated from the users; the comparison
  \<^verbatim>\<open>certificate.holder._id.toString() !== req.user._id.toString()\<close> throws a TypeError when
  the holder's user no longer exists.
\<close>

definition getCertificate :: "env \<Rightarrow> user \<Rightarrow> string \<Rightarrow> db \<Rightarrow> certificate response \<times> db" where
  "getCertificate e caller i d =
     (case findById i (certs d) of
        None \<Rightarrow> (failure 404 (Some ''CERT_NOT_FOUND'') ''Certificate not found.'', d)
      | Some c \<Rightarrow>
          (case ownOnly (role caller) of
             Inl err \<Rightarrow> (fetchFailed, d)
           | Inr own \<Rightarrow>
               (case (if own
                      then (case Option.bind (holder c) (\<lambda>h. findUserById h (users d)) of
                              None \<Rightarrow> Inl TypeError
                            | Some h \<Rightarrow> Inr (uid h \<noteq> uid caller))
                      else Inr False) of
                  Inl err \<Rightarrow> (fetchFailed, d)
                | Inr denied \<Rightarrow>
                    if denied
                    then (case log e
                                 ((auditOf e ''certificate.access_denied'')
                                    \<lparr>d_severity := Some ''warning'',
                                     d_userId := Some (uid caller),
                                     d_userEmail := email caller,
                                     d_userRole := Some (role caller),
                                     d_resource := Some ''certificate'',
                                     d_resourceId := Some (oid c),
                                     d_success := Some False,
                                     d_statusCode := Some 403\<rparr>)
                                 (audit d) of
                            Inl err \<Rightarrow> (fetchFailed, d)
                          | Inr (logged, a') \<Rightarrow>
                              (failure 403 (Some ''NOT_OWNER'')
                                 ''Access denied. This is not your certificate.'',
                               d\<lparr>audit := a'\<rparr>))
                    else (case log e
                                 ((auditOf e ''certificate.view'')
                                    \<lparr>d_userId := Some (uid caller),
                                     d_userEmail := email caller,
                                     d_userRole := Some (role caller),
                                     d_resource := Some ''certificate'',
                                     d_resourceId := Some (oid c),
                                     d_resourceName := title c\<rparr>)
                                 (audit d) of
                            Inl err \<Rightarrow> (fetchFailed, d)
                          | Inr (logged, a') \<Rightarrow>
                              (\<lparr>httpStatus = 200, success = True, code = None, errorText = None,
                                result = None, messageText = None, payload = Some c, extra = []\<rparr>,
                               d\<lparr>audit := a'\<rparr>)))))"

section \<open>Tokens (utils/jwt.js)\<close>

text \<open>
  The tokens are made and checked by the library \<^verbatim>\<open>jsonwebtoken\<close>, modelled here from its
  documentation. A token is either a string that is no JWT, or its claims together with the
  key its signature was made with: a signature checks under that key and no other.
  \<^verbatim>\<open>jwt.sign\<close> stamps \<^verbatim>\<open>iat\<close>, \<^verbatim>\<open>exp = iat + lifetime\<close> and the issuer and audience
  it is given. \<^verbatim>\<open>jwt.verify\<close> checks, in this order: the form, the signature, the expiry
  (\<^verbatim>\<open>TokenExpiredError\<close>), the audience when one is asked for, the issuer. It never looks
  at a claim of the payload such as \<^verbatim>\<open>type\<close>. Times of tokens are in seconds.
\<close>

record jwtClaims =
  j_userId :: "string option"
  j_email :: "string option"
  j_role :: "string option"
  j_tokenId :: "string option"
  j_type :: "string option"
  j_iat :: int
  j_exp :: "int option"
  j_iss :: "string option"
  j_aud :: "string option"

datatype jwt = Malformed string | Signed jwtClaims string

definition nowSeconds :: "env \<Rightarrow> int" where
  "nowSeconds e = now e div 1000"

definition jwtVerify :: "env \<Rightarrow> jwt \<Rightarrow> string \<Rightarrow> string option \<Rightarrow> string \<Rightarrow> exn + jwtClaims" where
  "jwtVerify e t secretKey audience issuer =
     (case t of
        Malformed s \<Rightarrow> Inl (JsonWebTokenError ''jwt malformed'')
      | Signed claims signedWith \<Rightarrow>
          if signedWith \<noteq> secretKey then Inl (JsonWebTokenError ''invalid signature'')
          else if (case j_exp claims of None \<Rightarrow> False | Some x \<Rightarrow> x \<le> nowSeconds e)
            then Inl TokenExpiredError
          else if (case audience of None \<Rightarrow> False | Some a \<Rightarrow> j_aud claims \<noteq> Some a)
            then Inl (JsonWebTokenError ''jwt audience invalid'')
          else if j_iss claims \<noteq> Some issuer then Inl (JsonWebTokenError ''jwt issuer invalid'')
          else Inr claims)"

definition JWT_SECRET :: "env \<Rightarrow> string" where
  "JWT_SECRET e =
     (case orElse (jwtSecretEnv e) (Some ''cert-rbac-super-secret-change-in-production-2024'') of
        None \<Rightarrow> [] | Some k \<Rightarrow> k)"

definition JWT_REFRESH_SECRET :: "env \<Rightarrow> string" where
  "JWT_REFRESH_SECRET e =
     (case orElse (jwtRefreshSecretEnv e) (Some ''cert-rbac-refresh-secret-change-2024'') of
        None \<Rightarrow> [] | Some k \<Rightarrow> k)"

definition generateAccessToken :: "env \<Rightarrow> user \<Rightarrow> jwt" where
  "generateAccessToken e u =
     Signed
       \<lparr>j_userId = Some (uid u), j_email = email u, j_role = Some (role u), j_tokenId = None,
        j_type = Some ''access'', j_iat = nowSeconds e,
        j_exp = Some (nowSeconds e + accessLifetime e),
        j_iss = Some ''certificate-rbac-system'', j_aud = Some ''certificate-rbac-users''\<rparr>
       (JWT_SECRET e)"

definition generateRefreshToken :: "env \<Rightarrow> user \<Rightarrow> jwt" where
  "generateRefreshToken e u =
     Signed
       \<lparr>j_userId = Some (uid u), j_email = email u, j_role = None,
        j_tokenId = Some (toHex (randomBytes e 0 16)),
        j_type = Some ''refresh'', j_iat = nowSeconds e,
        j_exp = Some (nowSeconds e + refreshLifetime e),
        j_iss = Some ''certificate-rbac-system'', j_aud = None\<rparr>
       (JWT_REFRESH_SECRET e)"

definition verifyAccessToken :: "env \<Rightarrow> jwt \<Rightarrow> exn + jwtClaims" where
  "verifyAccessToken e t =
     jwtVerify e t (JWT_SECRET e) (Some ''certificate-rbac-users'') ''certificate-rbac-system''"

definition verifyRefreshToken :: "env \<Rightarrow> jwt \<Rightarrow> exn + jwtClaims" where
  "verifyRefreshToken e t =
     jwtVerify e t (JWT_REFRESH_SECRET e) None ''certificate-rbac-system''"

definition generateTokenPair :: "env \<Rightarrow> user \<Rightarrow> jwt \<times> jwt" where
  "generateTokenPair e u = (generateAccessToken e u, generateRefreshToken e u)"

text \<open>
  The \<^verbatim>\<open>Authorization\<close> header: \<open>Bearer t\<close> is a header that starts with
  \<^verbatim>\<open>'Bearer '\<close>, \<open>t\<close> what follows up to the next space (\<open>None\<close> when that is empty).
\<close>

datatype authHeader = Bearer "jwt option" | NotBearer

definition extractTokenFromHeader :: "authHeader option \<Rightarrow> jwt option" where
  "extractTokenFromHeader h =
     (case h of None \<Rightarrow> None | Some NotBearer \<Rightarrow> None | Some (Bearer t) \<Rightarrow> t)"

section \<open>Authentication middleware (middleware/auth.js)\<close>

definition authServiceError :: "unit response" where
  "authServiceError =
     failure 500 (Some ''AUTH_SERVICE_ERROR'') ''Authentication service error.''"

text \<open>
  \<^verbatim>\<open>authenticate\<close>: \<open>Inl\<close> is the response that ends the request, \<open>Inr\<close> the user and
  the decoded token it attaches to the request before \<^verbatim>\<open>next()\<close>.
\<close>

definition authenticate ::
  "env \<Rightarrow> authHeader option \<Rightarrow> db \<Rightarrow> (unit response + (user \<times> jwtClaims)) \<times> db" where
  "authenticate e h d =
     (case extractTokenFromHeader h of
        None \<Rightarrow>
          (case log e
                  ((auditOf e ''security.unauthorized'')
                     \<lparr>d_severity := Some ''warning'', d_success := Some False,
                      d_statusCode := Some 401,
                      d_details := Some [(''reason'', Some (JString ''No token provided''))]\<rparr>)
                  (audit d) of
             Inl err \<Rightarrow> (Inl authServiceError, d)
           | Inr (logged, a') \<Rightarrow>
               (Inl (failure 401 (Some ''AUTH_REQUIRED'')
                       ''Authentication required. Please provide a valid token.''),
                d\<lparr>audit := a'\<rparr>))
      | Some token \<Rightarrow>
          (case verifyAccessToken e token of
             Inl err \<Rightarrow>
               (case log e
                       ((auditOf e ''security.unauthorized'')
                          \<lparr>d_severity := Some ''warning'', d_success := Some False,
                           d_statusCode := Some 401,
                           d_details :=
                             Some [(''reason'',
                                    Some (JString (if err = TokenExpiredError then ''Token expired''
                                                   else ''Invalid token'')))]\<rparr>)
                       (audit d) of
                  Inl err' \<Rightarrow> (Inl authServiceError, d)
                | Inr (logged, a') \<Rightarrow>
                    (Inl (if err = TokenExpiredError
                          then failure 401 (Some ''TOKEN_EXPIRED'')
                                 ''Token expired. Please refresh your session.''
                          else failure 401 (Some ''TOKEN_INVALID'') ''Invalid token.''),
                     d\<lparr>audit := a'\<rparr>))
           | Inr decoded \<Rightarrow>
               if j_type decoded \<noteq> Some ''access''
               then (Inl (failure 401 (Some ''TOKEN_TYPE_INVALID'') ''Invalid token type.''), d)
               else
                 (case Option.bind (j_userId decoded) (\<lambda>i. findUserById i (users d)) of
                    None \<Rightarrow> (Inl (failure 401 (Some ''USER_NOT_FOUND'') ''User not found.''), d)
                  | Some u \<Rightarrow>
                      if \<not> isActive u
                      then (case log e
                                   ((auditOf e ''security.unauthorized'')
                                      \<lparr>d_severity := Some ''warning'',
                                       d_userId := Some (uid u),
                                       d_userEmail := email u,
                                       d_userRole := Some (role u),
                                       d_success := Some False,
                                       d_statusCode := Some 401,
                                       d_details :=
                                         Some [(''reason'', Some (JString ''Account deactivated''))]\<rparr>)
                                   (audit d) of
                              Inl err \<Rightarrow> (Inl authServiceError, d)
                            | Inr (logged, a') \<Rightarrow>
                                (Inl (failure 401 (Some ''ACCOUNT_INACTIVE'')
                                        ''Account is deactivated. Contact administrator.''),
                                 d\<lparr>audit := a'\<rparr>))
                      else (Inr (u, decoded), d))))"

section \<open>Login and token refresh (controllers/authController.js, models/User.js)\<close>

text \<open>The virtual \<^verbatim>\<open>isLocked\<close>: \<^verbatim>\<open>!!(this.lockUntil && this.lockUntil > Date.now())\<close>.\<close>

definition isLocked :: "env \<Rightarrow> user \<Rightarrow> bool" where
  "isLocked e u = (case lockUntil u of None \<Rightarrow> False | Some t \<Rightarrow> now e < t)"

text \<open>\<^verbatim>\<open>this.updateOne(update)\<close>: the update of the stored document with this \<^verbatim>\<open>_id\<close>.\<close>

fun updateOne :: "string \<Rightarrow> (user \<Rightarrow> user) \<Rightarrow> user list \<Rightarrow> user list" where
  "updateOne i f [] = []"
| "updateOne i f (u # us) = (if uid u = i then f u # us else u # updateOne i f us)"

definition MAX_ATTEMPTS :: int where "MAX_ATTEMPTS = 5"

definition LOCK_TIME :: int where "LOCK_TIME = 2 * 60 * 60 * 1000"

text \<open>
  \<^verbatim>\<open>methods.incLoginAttempts\<close>. \<^verbatim>\<open>$inc\<close> adds to the stored counter; the test for the
  lock reads the counter of the document in memory.
\<close>

definition incLoginAttempts :: "env \<Rightarrow> user \<Rightarrow> user list \<Rightarrow> user list" where
  "incLoginAttempts e u us =
     (if (case lockUntil u of None \<Rightarrow> False | Some t \<Rightarrow> t < now e)
      then updateOne (uid u) (\<lambda>s. s\<lparr>lockUntil := None, loginAttempts := 1\<rparr>) us
      else if MAX_ATTEMPTS \<le> loginAttempts u + 1 \<and> \<not> isLocked e u
      then updateOne (uid u)
             (\<lambda>s. s\<lparr>loginAttempts := loginAttempts s + 1, lockUntil := Some (now e + LOCK_TIME)\<rparr>) us
      else updateOne (uid u) (\<lambda>s. s\<lparr>loginAttempts := loginAttempts s + 1\<rparr>) us)"

text \<open>\<^verbatim>\<open>methods.resetLoginAttempts\<close>.\<close>

definition resetLoginAttempts :: "env \<Rightarrow> user \<Rightarrow> user list \<Rightarrow> user list" where
  "resetLoginAttempts e u us =
     updateOne (uid u) (\<lambda>s. s\<lparr>lockUntil := None, loginAttempts := 0, lastLogin := Some (now e)\<rparr>) us"

text \<open>\<^verbatim>\<open>methods.comparePassword\<close>: \<^verbatim>\<open>bcrypt.compare(candidate, this.password)\<close>.\<close>

definition comparePassword :: "env \<Rightarrow> user \<Rightarrow> string \<Rightarrow> bool" where
  "comparePassword e u candidate = bcryptCompare e candidate (str (password u))"

definition loginFailed :: "(user \<times> jwt \<times> jwt) response" where
  "loginFailed = failure 500 (Some ''LOGIN_FAILED'') ''Login failed. Please try again.''"

definition invalidCredentials :: "(user \<times> jwt \<times> jwt) response" where
  "invalidCredentials = failure 401 (Some ''INVALID_CREDENTIALS'') ''Invalid email or password.''"

text \<open>
  \<^verbatim>\<open>login\<close>. Besides the response and the database, the result counts the calls of
  \<^verbatim>\<open>comparePassword\<close> the request made.
\<close>

definition login ::
  "env \<Rightarrow> string \<Rightarrow> string \<Rightarrow> db \<Rightarrow> (user \<times> jwt \<times> jwt) response \<times> db \<times> nat" where
  "login e mail candidate d =
     (case findUserByEmail mail (users d) of
        None \<Rightarrow>
          (case log e
                  ((auditOf e ''auth.login_failed'')
                     \<lparr>d_severity := Some ''warning'', d_success := Some False,
                      d_details := Some [(''email'', Some (JString mail)),
                                         (''reason'', Some (JString ''User not found''))]\<rparr>)
                  (audit d) of
             Inl err \<Rightarrow> (loginFailed, d, 0)
           | Inr (logged, a') \<Rightarrow> (invalidCredentials, d\<lparr>audit := a'\<rparr>, 0))
      | Some u \<Rightarrow>
          if isLocked e u
          then (case log e
                       ((auditOf e ''auth.account_locked'')
                          \<lparr>d_severity := Some ''critical'',
                           d_userId := Some (uid u),
                           d_userEmail := email u,
                           d_success := Some False,
                           d_details := Some [(''lockUntil'', map_option JDate (lockUntil u))]\<rparr>)
                       (audit d) of
                  Inl err \<Rightarrow> (loginFailed, d, 0)
                | Inr (logged, a') \<Rightarrow>
                    ((failure 423 (Some ''ACCOUNT_LOCKED'')
                        ''Account locked due to multiple failed login attempts. Try again in 2 hours.'')
                       \<lparr>extra := [(''lockUntil'', map_option JDate (lockUntil u))]\<rparr>,
                     d\<lparr>audit := a'\<rparr>, 0))
          else if \<not> isActive u
          then (failure 401 (Some ''ACCOUNT_INACTIVE'')
                  ''Account deactivated. Contact administrator.'', d, 0)
          else if \<not> comparePassword e u candidate
          then (case log e
                       ((auditOf e ''auth.login_failed'')
                          \<lparr>d_severity := Some ''warning'',
                           d_userId := Some (uid u),
                           d_userEmail := email u,
                           d_success := Some False,
                           d_details := Some [(''reason'', Some (JString ''Wrong password'')),
                                              (''attempts'', Some (JNumber (loginAttempts u + 1)))]\<rparr>)
                       (audit d) of
                  Inl err \<Rightarrow> (loginFailed, d\<lparr>users := incLoginAttempts e u (users d)\<rparr>, 1)
                | Inr (logged, a') \<Rightarrow>
                    (invalidCredentials,
                     d\<lparr>users := incLoginAttempts e u (users d), audit := a'\<rparr>, 1))
          else (case log e
                       ((auditOf e ''auth.login'')
                          \<lparr>d_userId := Some (uid u),
                           d_userEmail := email u,
                           d_userRole := Some (role u),
                           d_resource := Some ''user'',
                           d_resourceId := Some (uid u),
                           d_details := Some [(''role'', Some (JString (role u)))]\<rparr>)
                       (audit d) of
                  Inl err \<Rightarrow> (loginFailed, d\<lparr>users := resetLoginAttempts e u (users d)\<rparr>, 1)
                | Inr (logged, a') \<Rightarrow>
                    (succeeded 200 (Some ''Login successful.'') (u, generateTokenPair e u),
                     d\<lparr>users := resetLoginAttempts e u (users d), audit := a'\<rparr>, 1)))"

definition refreshFailed :: "(jwt \<times> jwt) response" where
  "refreshFailed =
     \<lparr>httpStatus = 500, success = False, code = None,
      errorText = Some ''Token refresh failed.'', result = None, messageText = None,
      payload = None, extra = []\<rparr>"

text \<open>\<^verbatim>\<open>refreshToken\<close>: \<open>t\<close> is \<^verbatim>\<open>req.body.refreshToken\<close>.\<close>

definition refreshToken :: "env \<Rightarrow> jwt option \<Rightarrow> db \<Rightarrow> (jwt \<times> jwt) response \<times> db" where
  "refreshToken e t d =
     (case t of
        None \<Rightarrow> (failure 401 (Some ''REFRESH_TOKEN_REQUIRED'') ''Refresh token required.'', d)
      | Some token \<Rightarrow>
          (case verifyRefreshToken e token of
             Inl err \<Rightarrow>
               (failure 401 (Some ''REFRESH_TOKEN_INVALID'') ''Invalid or expired refresh token.'', d)
           | Inr decoded \<Rightarrow>
               (case Option.bind (j_userId decoded) (\<lambda>i. findUserById i (users d)) of
                  None \<Rightarrow> (failure 401 (Some ''USER_INACTIVE'') ''User not found or inactive.'', d)
                | Some u \<Rightarrow>
                    if \<not> isActive u
                    then (failure 401 (Some ''USER_INACTIVE'') ''User not found or inactive.'', d)
                    else (case log e
                                 ((auditOf e ''auth.token_refresh'')
                                    \<lparr>d_userId := Some (uid u),
                                     d_userEmail := email u,
                                     d_userRole := Some (role u)\<rparr>)
                                 (audit d) of
                            Inl err \<Rightarrow> (refreshFailed, d)
                          | Inr (logged, a') \<Rightarrow>
                              (succeeded 200 (Some ''Token refreshed.'') (generateTokenPair e u),
                               d\<lparr>audit := a'\<rparr>)))))"

section \<open>User management (controllers/userController.js, models/User.js)\<close>

definition lowerChar :: "char \<Rightarrow> char" where
  "lowerChar c =
     (case map_of (zip ''ABCDEFGHIJKLMNOPQRSTUVWXYZ'' ''abcdefghijklmnopqrstuvwxyz'') c of
        Some l \<Rightarrow> l
      | None \<Rightarrow> c)"

definition toLowerCase :: "string \<Rightarrow> string" where
  "toLowerCase s = map lowerChar s"

text \<open>
  The schema's pattern for \<^verbatim>\<open>email\<close>, \<^verbatim>\<open>/^\S+@\S+\.\S+$/\<close>: no white space, and an
  \<^verbatim>\<open>@\<close> after at least one character, followed by at least one character, a dot and at
  least one character.
\<close>

fun dotThenMore :: "string \<Rightarrow> bool" where
  "dotThenMore [] = False"
| "dotThenMore (c # cs) = (if c = CHR ''.'' \<and> cs \<noteq> [] then True else dotThenMore cs)"

fun atThenDomain :: "string \<Rightarrow> bool" where
  "atThenDomain [] = False"
| "atThenDomain (c # cs) =
     (if c = CHR ''@'' \<and> (case cs of [] \<Rightarrow> False | x # xs \<Rightarrow> dotThenMore xs) then True
      else atThenDomain cs)"

definition emailMatches :: "string \<Rightarrow> bool" where
  "emailMatches s =
     (list_all (\<lambda>c. \<not> isSpace c) s \<and> (case s of [] \<Rightarrow> False | c # cs \<Rightarrow> atThenDomain cs))"

text \<open>
  The validators of the user schema, as the list of the paths that fail. The password is
  validated when the document is created; a document read without it is saved without
  validating it.
\<close>

definition userSchemaErrors :: "bool \<Rightarrow> user \<Rightarrow> string list" where
  "userSchemaErrors withPassword u =
     (if (case fullName u of None \<Rightarrow> False | Some n \<Rightarrow> 2 \<le> length n \<and> length n \<le> 100)
        then [] else [''fullName'']) @
     (if (case email u of None \<Rightarrow> False | Some m \<Rightarrow> emailMatches m) then [] else [''email'']) @
     (if withPassword \<and> \<not> (case password u of None \<Rightarrow> False | Some p \<Rightarrow> 8 \<le> length p)
        then [''password''] else []) @
     (if role u \<in> set ROLES_values then [] else [''role'']) @
     (if maxlength 200 (organization u) then [] else [''organization'']) @
     (if maxlength 200 (department u) then [] else [''department''])"

record userBody =
  nu_fullName :: "string option"
  nu_email :: "string option"
  nu_password :: "string option"
  nu_role :: "string option"
  nu_organization :: "string option"
  nu_department :: "string option"
  nu_nationalId :: "string option"
  nu_phoneNumber :: "string option"

text \<open>
  The document \<^verbatim>\<open>User.create({ ..., role: role || ROLES.HOLDER, createdBy })\<close> builds: the
  schema trims the strings and lowers the case of the email, and sets the defaults.
\<close>

definition newUser :: "env \<Rightarrow> user \<Rightarrow> userBody \<Rightarrow> user" where
  "newUser e caller body =
     \<lparr>uid = newObjectId e,
      fullName = map_option trim (nu_fullName body),
      email = map_option (\<lambda>m. toLowerCase (trim m)) (nu_email body),
      password = nu_password body,
      role = (case orElse (nu_role body) (Some HOLDER) of None \<Rightarrow> HOLDER | Some r \<Rightarrow> r),
      isActive = True,
      lastLogin = None,
      loginAttempts = 0,
      lockUntil = None,
      organization = map_option trim (nu_organization body),
      department = map_option trim (nu_department body),
      nationalId = map_option trim (nu_nationalId body),
      phoneNumber = map_option trim (nu_phoneNumber body),
      createdBy = Some (uid caller)\<rparr>"

text \<open>
  \<^verbatim>\<open>User.create\<close>: validation, the pre-save hook that replaces the password by its bcrypt
  hash, and the insertion, which fails on the unique indexes of \<^verbatim>\<open>email\<close> and (when
  present) \<^verbatim>\<open>nationalId\<close>.
\<close>

definition userClashes :: "user \<Rightarrow> user list \<Rightarrow> bool" where
  "userClashes u us =
     list_ex (\<lambda>s. email s = email u \<or> (nationalId u \<noteq> None \<and> nationalId s = nationalId u)) us"

definition userCreate :: "env \<Rightarrow> user \<Rightarrow> user list \<Rightarrow> exn + (user \<times> user list)" where
  "userCreate e u us =
     (case userSchemaErrors True u of
        p # ps \<Rightarrow> Inl (ValidationError p)
      | [] \<Rightarrow>
          (let u' = u\<lparr>password := map_option (bcryptHash e) (password u)\<rparr> in
           if userClashes u' us then Inl (DuplicateKey ''user'')
           else Inr (u', us @ [u'])))"

text \<open>
  \<^verbatim>\<open>user.save()\<close> of a document read from the store: validation, then the update of the
  stored document. The password was not read and is not hashed again.
\<close>

definition userSave :: "user \<Rightarrow> user list \<Rightarrow> exn + user list" where
  "userSave u us =
     (case userSchemaErrors False u of
        p # ps \<Rightarrow> Inl (ValidationError p)
      | [] \<Rightarrow> Inr (updateOne (uid u) (\<lambda>s. u) us))"

definition createUserFailed :: "user response" where
  "createUserFailed =
     \<lparr>httpStatus = 500, success = False, code = None,
      errorText = Some ''Failed to create user.'', result = None, messageText = None,
      payload = None, extra = []\<rparr>"

text \<open>\<^verbatim>\<open>createUser\<close>.\<close>

definition createUser :: "env \<Rightarrow> user \<Rightarrow> userBody \<Rightarrow> db \<Rightarrow> user response \<times> db" where
  "createUser e caller body d =
     (if (case nu_role body of None \<Rightarrow> False | Some r \<Rightarrow> r \<in> set [ADMIN, SUPER_ADMIN]) \<and>
         role caller \<noteq> SUPER_ADMIN
      then (failure 403 (Some ''INSUFFICIENT_PRIVILEGE'')
              ''Only super admins can create admin accounts.'', d)
      else
        (case Option.bind (nu_email body) (\<lambda>m. findUserByEmail m (users d)) of
           Some existing \<Rightarrow> (failure 409 (Some ''EMAIL_TAKEN'') ''Email already in use.'', d)
         | None \<Rightarrow>
             (case userCreate e (newUser e caller body) (users d) of
                Inl err \<Rightarrow> (createUserFailed, d)
              | Inr (u, us') \<Rightarrow>
                  (case log e
                          ((auditOf e ''user.create'')
                             \<lparr>d_userId := Some (uid caller),
                              d_userEmail := email caller,
                              d_userRole := Some (role caller),
                              d_resource := Some ''user'',
                              d_resourceId := Some (uid u),
                              d_resourceName := fullName u,
                              d_details := Some [(''email'', map_option JString (email u)),
                                                 (''role'', Some (JString (role u)))]\<rparr>)
                          (audit d) of
                     Inl err \<Rightarrow> (createUserFailed, d\<lparr>users := us'\<rparr>)
                   | Inr (logged, a') \<Rightarrow>
                       (succeeded 201 (Some ''User created successfully.'') u,
                        d\<lparr>users := us', audit := a'\<rparr>)))))"

definition assignRoleFailed :: "(user \<times> string) response" where
  "assignRoleFailed =
     \<lparr>httpStatus = 500, success = False, code = None,
      errorText = Some ''Failed to assign role.'', result = None, messageText = None,
      payload = None, extra = []\<rparr>"

text \<open>
  \<^verbatim>\<open>assignRole\<close>: \<open>target\<close> is \<^verbatim>\<open>req.params.id\<close>, \<open>newRole\<close> is
  \<^verbatim>\<open>req.body.role\<close>. The payload is the saved user with the role it had before.
\<close>

definition assignRole ::
  "env \<Rightarrow> user \<Rightarrow> string \<Rightarrow> string option \<Rightarrow> db \<Rightarrow> (user \<times> string) response \<times> db" where
  "assignRole e caller target newRole d =
     (case (case newRole of None \<Rightarrow> None
                          | Some r \<Rightarrow> if r \<in> set ROLES_values then Some r else None) of
        None \<Rightarrow> (failure 400 (Some ''INVALID_ROLE'') ''Invalid role.'', d)
      | Some r \<Rightarrow>
          if r \<in> set [ADMIN, SUPER_ADMIN] \<and> role caller \<noteq> SUPER_ADMIN
          then (failure 403 (Some ''INSUFFICIENT_PRIVILEGE'')
                  ''Only super admins can assign admin roles.'', d)
          else
            (case findUserById target (users d) of
               None \<Rightarrow>
                 (\<lparr>httpStatus = 404, success = False, code = None,
                   errorText = Some ''User not found.'', result = None, messageText = None,
                   payload = None, extra = []\<rparr>, d)
             | Some u \<Rightarrow>
                 (case userSave (u\<lparr>role := r\<rparr>) (users d) of
                    Inl err \<Rightarrow> (assignRoleFailed, d)
                  | Inr us' \<Rightarrow>
                      (case log e
                              ((auditOf e ''user.role_assign'')
                                 \<lparr>d_severity := Some ''warning'',
                                  d_userId := Some (uid caller),
                                  d_userEmail := email caller,
                                  d_userRole := Some (role caller),
                                  d_resource := Some ''user'',
                                  d_resourceId := Some (uid u),
                                  d_resourceName := fullName u,
                                  d_changes :=
                                    Some ([(''role'', Some (JString (role u)))],
                                          [(''role'', Some (JString r))])\<rparr>)
                              (audit d) of
                         Inl err \<Rightarrow> (assignRoleFailed, d\<lparr>users := us'\<rparr>)
                       | Inr (logged, a') \<Rightarrow>
                           (succeeded 200 (Some (''Role updated to '' @ [CHR 0x22] @ r @ [CHR 0x22] @ '' successfully.''))
                              (u\<lparr>role := r\<rparr>, role u),
                            d\<lparr>users := us', audit := a'\<rparr>)))))"

section \<open>Sample values\<close>

text \<open>
  A platform, two users and a certificate on which the theorems below are instantiated.
  The digest functions of the sample platform are stand-ins; the theorems are proved for
  every platform.
\<close>

definition sampleEnv :: env where
  "sampleEnv =
     \<lparr>now = 1700000000000, currentYear = 2023, entropy = (\<lambda>i. 7 * i + 3),
      newObjectId = ''o9'',
      certSigningSecretEnv = None, appBaseUrlEnv = None,
      jwtSecretEnv = None, jwtRefreshSecretEnv = None,
      accessLifetime = 900, refreshLifetime = 604800,
      reqIp = Some ''203.0.113.7'', reqUserAgent = Some ''curl'',
      reqMethod = Some ''POST'', reqPath = Some ''/api'',
      sha256Hex = (\<lambda>s. s),
      hmacSha256Hex = (\<lambda>k m. ''ab''),
      jsonStringify = (\<lambda>kvs. concat (map (\<lambda>(k, v). case v of JString x \<Rightarrow> x | _ \<Rightarrow> []) kvs)),
      bcryptHash = (\<lambda>p. rev p),
      bcryptCompare = (\<lambda>p h. h = rev p),
      qrToDataURL = None,
      toLocaleDateString = (\<lambda>t. ''a date''),
      inspectDocument = (\<lambda>i n m. ''{ _id: '' @ i @ '' }'')\<rparr>"

definition sampleUser :: "string \<Rightarrow> string \<Rightarrow> user" where
  "sampleUser i r =
     \<lparr>uid = i, fullName = Some ''Sam Doe'', email = Some (i @ ''@test.com''),
      password = Some (rev ''Pw12345!''), role = r, isActive = True, lastLogin = None,
      loginAttempts = 0, lockUntil = None, organization = Some ''Org'', department = None,
      nationalId = None, phoneNumber = None, createdBy = None\<rparr>"

definition sampleCert :: certificate where
  "sampleCert =
     \<lparr>oid = ''o1'', certificateId = Some ''CERT-2023-0A0B0C0D'',
      serialNumber = Some ''0102030405060708'', title = Some ''Diploma'',
      description = None, certType = Some ''academic'', status = ''active'',
      holder = Some ''h'', holderName = Some ''Sam Doe'', holderNationalId = None,
      issuedBy = Some ''i'', issuerName = Some ''Sam Doe'',
      issuingOrganization = Some ''Org'', issuingDepartment = None,
      issuedAt = 1600000000000, expiresAt = None, revokedAt = None, revokedBy = None,
      revocationReason = None, digitalSignature = None, checksum = Some ''x'',
      qrCode = None, verificationUrl = None, verificationToken = Some ''t1'',
      score = None, credits = None, isPublic = False, verificationHistory = []\<rparr>"

definition sampleDb :: "certificate \<Rightarrow> db" where
  "sampleDb c =
     \<lparr>users = [sampleUser ''h'' HOLDER, sampleUser ''a'' ADMIN, sampleUser ''s'' SUPER_ADMIN],
      certs = [c],
      audit = \<lparr>entries = [], writable = True\<rparr>\<rparr>"



section \<open>Properties\<close>

lemmas role_defs = SUPER_ADMIN_def ADMIN_def ISSUER_def VERIFIER_def HOLDER_def


subsection \<open>The permission check\<close>

lemma hasPermission_own:
  "map_of ROLE_PERMISSIONS r = Some ps \<Longrightarrow> hasPermission r p = Inr (p \<in> set ps)"
  by (simp add: hasPermission_def getProperty_def)

lemma hasPermission_super_admin:
  "p \<in> set PERMISSIONS_values \<Longrightarrow> hasPermission SUPER_ADMIN p = Inr True"
  by (simp add: hasPermission_def getProperty_def ROLE_PERMISSIONS_def)

lemma hasPermission_unknown_role:
  "r \<notin> set ROLES_values \<Longrightarrow> r \<notin> set objectPrototypeKeys \<Longrightarrow>
   hasPermission r p = Inr False"
  by (simp add: hasPermission_def getProperty_def ROLE_PERMISSIONS_def ROLES_values_def)

text \<open>
  C6. \<^verbatim>\<open>hasPermission\<close> is to return \<^verbatim>\<open>false\<close> for every unknown role and never
  throw. The role name \<^verbatim>\<open>constructor\<close> is not a role, yet the lookup finds the property
  every object inherits, and the call of its missing \<^verbatim>\<open>includes\<close> throws.
\<close>

theorem hasPermission_inherited_key_throws:
  "''constructor'' \<notin> set ROLES_values \<and>
   hasPermission ''constructor'' CERTIFICATE_READ = Inl TypeError"
  by (simp add: hasPermission_def getProperty_def ROLE_PERMISSIONS_def ROLES_values_def
      objectPrototypeKeys_def role_defs)

subsection \<open>The audit recorder never throws\<close>

lemma log_Inr:
  "log e x a = Inr (case logTry e x a of Inl err \<Rightarrow> (None, a) | Inr (en, a') \<Rightarrow> (Some en, a'))"
  by (simp add: log_def split: sum.splits)

subsection \<open>Saving a certificate\<close>

lemma preSave_kept [simp]:
  "oid (preSave e ht c) = oid c"
  "title (preSave e ht c) = title c"
  "description (preSave e ht c) = description c"
  "certType (preSave e ht c) = certType c"
  "status (preSave e ht c) = status c"
  "holder (preSave e ht c) = holder c"
  "holderName (preSave e ht c) = holderName c"
  "issuedBy (preSave e ht c) = issuedBy c"
  "issuerName (preSave e ht c) = issuerName c"
  "issuingOrganization (preSave e ht c) = issuingOrganization c"
  "issuedAt (preSave e ht c) = issuedAt c"
  "expiresAt (preSave e ht c) = expiresAt c"
  "revokedAt (preSave e ht c) = revokedAt c"
  "revokedBy (preSave e ht c) = revokedBy c"
  "revocationReason (preSave e ht c) = revocationReason c"
  "digitalSignature (preSave e ht c) = digitalSignature c"
  "qrCode (preSave e ht c) = qrCode c"
  "score (preSave e ht c) = score c"
  "credits (preSave e ht c) = credits c"
  "verificationHistory (preSave e ht c) = verificationHistory c"
  by (simp_all add: preSave_def Let_def)

lemma preSave_ids_kept:
  "truthy (certificateId c) \<Longrightarrow> certificateId (preSave e ht c) = certificateId c"
  "truthy (serialNumber c) \<Longrightarrow> serialNumber (preSave e ht c) = serialNumber c"
  "truthy (verificationToken c) \<Longrightarrow> verificationToken (preSave e ht c) = verificationToken c"
  by (simp_all add: preSave_def Let_def)

lemma clashes_cong:
  "oid c' = oid c \<Longrightarrow> certificateId c' = certificateId c \<Longrightarrow>
   serialNumber c' = serialNumber c \<Longrightarrow> clashes c' cs = clashes c cs"
  by (simp add: clashes_def)

lemma certSave_ok:
  "schemaErrors c = [] \<Longrightarrow> \<not> clashes (preSave e ht c) cs \<Longrightarrow>
   certSave e ht c cs = Inr (preSave e ht c, upsert (preSave e ht c) cs)"
  by (simp add: certSave_def Let_def)

lemma certSave_invalid:
  "schemaErrors c \<noteq> [] \<Longrightarrow> \<exists>p. certSave e ht c cs = Inl (ValidationError p)"
  by (cases "schemaErrors c") (simp_all add: certSave_def)

lemma certSave_Inr_valid:
  "certSave e ht c cs = Inr (c', cs') \<Longrightarrow> schemaErrors c = [] \<and> c' = preSave e ht c"
  by (cases "schemaErrors c") (auto simp add: certSave_def Let_def split: if_splits)

subsection \<open>Public verification\<close>

lemma historyErrors_suspended:
  "h_result h = Some ''suspended'' \<Longrightarrow> historyErrors h \<noteq> []"
  by (simp add: historyErrors_def HISTORY_RESULT_values_def)

lemma schemaErrors_history:
  "h \<in> set (verificationHistory c) \<Longrightarrow> historyErrors h \<noteq> [] \<Longrightarrow> schemaErrors c \<noteq> []"
  by (auto simp add: schemaErrors_def)

lemma schemaErrors_push:
  "schemaErrors c = [] \<Longrightarrow> r \<in> set HISTORY_RESULT_values \<Longrightarrow>
   schemaErrors (c\<lparr>verificationHistory := verificationHistory c @
       [\<lparr>verifiedBy = vb, verifiedAt = va, h_ipAddress = ip, h_userAgent = ua,
         h_result = Some r\<rparr>]\<rparr>) = []"
  by (simp add: schemaErrors_def historyErrors_def split: if_splits)

lemma verificationOutcome_suspended:
  "status c = ''suspended'' \<Longrightarrow>
   verificationOutcome e c = Inr (''suspended'', ''Certificate is currently suspended.'')"
  by (simp add: verificationOutcome_def)

lemma verify_suspended:
  assumes "findByToken token (certs d) = Some c" and "status c = ''suspended''"
  shows "verifyCertificate e reqUser token d = (verifyFailed, d)"
proof -
  let ?h = "\<lparr>verifiedBy = map_option uid reqUser, verifiedAt = now e,
             h_ipAddress = reqIp e, h_userAgent = reqUserAgent e,
             h_result = Some ''suspended''\<rparr>"
  let ?c = "c\<lparr>verificationHistory := verificationHistory c @ [?h]\<rparr>"
  have "schemaErrors ?c \<noteq> []"
    by (rule schemaErrors_history [where h = ?h]) (simp_all add: historyErrors_suspended)
  then obtain p where "certSave e (populatedHolderText e (users d) c) ?c (certs d) = Inl (ValidationError p)"
    using certSave_invalid by blast
  then show ?thesis
    using assms by (simp add: verifyCertificate_def verificationOutcome_suspended)
qed

lemma verify_found_ok:
  assumes "findByToken token (certs d) = Some c"
      and "schemaErrors c = []"
      and "truthy (certificateId c)" and "truthy (serialNumber c)"
      and "\<not> clashes c (certs d)"
      and "verificationOutcome e c = Inr (r, m)"
      and "r \<in> set HISTORY_RESULT_values"
  shows "httpStatus (fst (verifyCertificate e reqUser token d)) = 200 \<and>
         result (fst (verifyCertificate e reqUser token d)) = Some r \<and>
         messageText (fst (verifyCertificate e reqUser token d)) = Some m"
proof -
  let ?c = "c\<lparr>verificationHistory := verificationHistory c @
                [\<lparr>verifiedBy = map_option uid reqUser, verifiedAt = now e,
                  h_ipAddress = reqIp e, h_userAgent = reqUserAgent e,
                  h_result = Some r\<rparr>]\<rparr>"
  let ?ht = "populatedHolderText e (users d) c"
  have v: "schemaErrors ?c = []"
    using assms(2,7) by (rule schemaErrors_push)
  have "clashes (preSave e ?ht ?c) (certs d) = clashes c (certs d)"
    using assms(3,4) by (intro clashes_cong) (simp_all add: preSave_ids_kept)
  then have "certSave e ?ht ?c (certs d) = Inr (preSave e ?ht ?c, upsert (preSave e ?ht ?c) (certs d))"
    using v assms(5) by (simp add: certSave_ok)
  then show ?thesis
    using assms(1,6) by (simp add: verifyCertificate_def log_Inr split: sum.splits prod.splits)
qed

lemma verify_outcome_throws:
  assumes "findByToken token (certs d) = Some c"
      and "verificationOutcome e c = Inl err"
  shows "verifyCertificate e reqUser token d = (verifyFailed, d)"
  using assms by (simp add: verifyCertificate_def)

text \<open>
  The order of the conditions, over the whole handler. For a certificate found by its
  verification token (a stored document: valid for the schema, with its identifiers,
  sharing them with no other document), the reported result is decided by the first
  condition that holds, in this order: status \<^verbatim>\<open>revoked\<close>; status \<^verbatim>\<open>suspended\<close>, whose
  report is the service error; expiry; any other status than \<^verbatim>\<open>active\<close>; the signature
  (none: valid; \<^verbatim>\<open>verifySignature\<close> true: valid, false: invalid, thrown: the service
  error). In particular a revoked certificate past its expiry is reported \<^verbatim>\<open>revoked\<close>,
  with status 200, and not \<^verbatim>\<open>expired\<close>.
\<close>

lemma verify_precedence:
  assumes "findByToken token (certs d) = Some c"
      and "schemaErrors c = []"
      and "truthy (certificateId c)" and "truthy (serialNumber c)"
      and "\<not> clashes c (certs d)"
  shows "result (fst (verifyCertificate e reqUser token d)) =
           Some (if status c = ''revoked'' then ''revoked''
                 else if status c = ''suspended'' then ''error''
                 else if isExpired e c then ''expired''
                 else if status c \<noteq> ''active'' then ''invalid''
                 else if \<not> truthy (digitalSignature c) then ''valid''
                 else (case verifySignature e (SIGNING_SECRET e) c of
                         Inl err \<Rightarrow> ''error''
                       | Inr isSignatureValid \<Rightarrow> if isSignatureValid then ''valid'' else ''invalid''))
         \<and> (status c = ''revoked'' \<and> isExpired e c \<longrightarrow>
              httpStatus (fst (verifyCertificate e reqUser token d)) = 200 \<and>
              result (fst (verifyCertificate e reqUser token d)) = Some ''revoked'' \<and>
              result (fst (verifyCertificate e reqUser token d)) \<noteq> Some ''expired'')"
proof -
  note ok = verify_found_ok [OF assms, of e _ _ reqUser]
  have revoked: "status c = ''revoked'' \<Longrightarrow>
      httpStatus (fst (verifyCertificate e reqUser token d)) = 200 \<and>
      result (fst (verifyCertificate e reqUser token d)) = Some ''revoked''"
    using ok [of "''revoked''"] by (simp add: verificationOutcome_def HISTORY_RESULT_values_def)
  have suspended: "status c = ''suspended'' \<Longrightarrow>
      result (fst (verifyCertificate e reqUser token d)) = Some ''error''"
    using verify_suspended [OF assms(1), of e reqUser] by (simp add: verifyFailed_def)
  have expired: "status c \<noteq> ''revoked'' \<Longrightarrow> status c \<noteq> ''suspended'' \<Longrightarrow> isExpired e c \<Longrightarrow>
      result (fst (verifyCertificate e reqUser token d)) = Some ''expired''"
    using ok [of "''expired''"] by (simp add: verificationOutcome_def HISTORY_RESULT_values_def)
  have inactive: "status c \<noteq> ''revoked'' \<Longrightarrow> status c \<noteq> ''suspended'' \<Longrightarrow> \<not> isExpired e c \<Longrightarrow>
      status c \<noteq> ''active'' \<Longrightarrow>
      result (fst (verifyCertificate e reqUser token d)) = Some ''invalid''"
    using ok [of "''invalid''"] by (simp add: verificationOutcome_def HISTORY_RESULT_values_def)
  have unsigned: "\<not> isExpired e c \<Longrightarrow> status c = ''active'' \<Longrightarrow> \<not> truthy (digitalSignature c) \<Longrightarrow>
      result (fst (verifyCertificate e reqUser token d)) = Some ''valid''"
    using ok [of "''valid''"] by (simp add: verificationOutcome_def HISTORY_RESULT_values_def)
  have signed: "\<not> isExpired e c \<Longrightarrow> status c = ''active'' \<Longrightarrow> truthy (digitalSignature c) \<Longrightarrow>
      result (fst (verifyCertificate e reqUser token d)) =
        Some (case verifySignature e (SIGNING_SECRET e) c of
                Inl err \<Rightarrow> ''error''
              | Inr isSignatureValid \<Rightarrow> if isSignatureValid then ''valid'' else ''invalid'')"
  proof (cases "verifySignature e (SIGNING_SECRET e) c")
    case (Inl err)
    assume "\<not> isExpired e c" "status c = ''active''" "truthy (digitalSignature c)"
    then have "verificationOutcome e c = Inl err"
      using Inl by (simp add: verificationOutcome_def)
    then show ?thesis
      using verify_outcome_throws [OF assms(1)] Inl by (simp add: verifyFailed_def)
  next
    case (Inr b)
    assume "\<not> isExpired e c" "status c = ''active''" "truthy (digitalSignature c)"
    then show ?thesis
      using Inr ok [of "''valid''"] ok [of "''invalid''"]
      by (cases b) (simp_all add: verificationOutcome_def HISTORY_RESULT_values_def)
  qed
  show ?thesis
    using revoked suspended expired inactive unsigned signed by auto
qed

text \<open>Its instance at a revoked certificate that expired long ago.\<close>

lemma verify_precedence_revoked_expired:
  "findByToken ''t1'' (certs (sampleDb (sampleCert\<lparr>status := ''revoked'', expiresAt := Some 1\<rparr>))) =
     Some (sampleCert\<lparr>status := ''revoked'', expiresAt := Some 1\<rparr>) \<and>
   schemaErrors (sampleCert\<lparr>status := ''revoked'', expiresAt := Some 1\<rparr>) = [] \<and>
   isExpired sampleEnv (sampleCert\<lparr>status := ''revoked'', expiresAt := Some 1\<rparr>) \<and>
   result (fst (verifyCertificate sampleEnv None ''t1''
     (sampleDb (sampleCert\<lparr>status := ''revoked'', expiresAt := Some 1\<rparr>)))) = Some ''revoked''"
proof -
  let ?c = "sampleCert\<lparr>status := ''revoked'', expiresAt := Some 1\<rparr>"
  have f: "findByToken ''t1'' (certs (sampleDb ?c)) = Some ?c"
    by (simp add: findByToken_def sampleDb_def sampleCert_def)
  have v: "schemaErrors ?c = []"
    by (simp add: schemaErrors_def sampleCert_def maxlength_def CERTIFICATE_TYPES_values_def
        CERTIFICATE_STATUS_values_def)
  have i1: "truthy (certificateId ?c)" and i2: "truthy (serialNumber ?c)"
    by (simp_all add: sampleCert_def)
  have nc: "\<not> clashes ?c (certs (sampleDb ?c))"
    by (simp add: clashes_def sampleDb_def)
  have x: "isExpired sampleEnv ?c"
    by (simp add: isExpired_def sampleEnv_def)
  show ?thesis
    using verify_precedence [OF f v i1 i2 nc, of sampleEnv None] f v x by simp
qed

text \<open>
  C1. The reported result is to be that of the first condition that holds: \<^verbatim>\<open>revoked\<close>,
  then \<^verbatim>\<open>suspended\<close>, then expiry, then any other status than \<^verbatim>\<open>active\<close>, then the
  signature. For a suspended certificate the chain of conditions does choose
  \<^verbatim>\<open>suspended\<close>, but the response reports \<^verbatim>\<open>error\<close> with status 500: the history
  entry with that result is rejected by the schema when the certificate is saved. The other
  conditions report as the order says (lemma \<open>verify_precedence\<close>).
\<close>

theorem suspended_is_chosen_but_error_is_reported:
  "verificationOutcome sampleEnv (sampleCert\<lparr>status := ''suspended''\<rparr>) =
     Inr (''suspended'', ''Certificate is currently suspended.'') \<and>
   httpStatus (fst (verifyCertificate sampleEnv None ''t1''
     (sampleDb (sampleCert\<lparr>status := ''suspended''\<rparr>)))) = 500 \<and>
   result (fst (verifyCertificate sampleEnv None ''t1''
     (sampleDb (sampleCert\<lparr>status := ''suspended''\<rparr>)))) = Some ''error''"
proof -
  let ?c = "sampleCert\<lparr>status := ''suspended''\<rparr>"
  have f: "findByToken ''t1'' (certs (sampleDb ?c)) = Some ?c"
    by (simp add: findByToken_def sampleDb_def sampleCert_def)
  have "verifyCertificate sampleEnv None ''t1'' (sampleDb ?c) = (verifyFailed, sampleDb ?c)"
    using f by (rule verify_suspended) simp
  then show ?thesis
    by (simp add: verificationOutcome_suspended verifyFailed_def)
qed

text \<open>
  C10. The schema admits only \<^verbatim>\<open>valid\<close>, \<^verbatim>\<open>invalid\<close>, \<^verbatim>\<open>expired\<close> and \<^verbatim>\<open>revoked\<close>
  as the result of a history entry: every entry of a certificate that a save accepted has
  one of them, and \<^verbatim>\<open>suspended\<close> is not among them. So the verification of a suspended
  certificate cannot save its history entry: the endpoint answers 500 with the result
  \<^verbatim>\<open>error\<close>, and the database is left as it was.
\<close>

theorem suspended_verification_is_service_error:
  assumes "findByToken token (certs d) = Some c" and "status c = ''suspended''"
  shows "(\<forall>ht c0 cs0 c1 cs1 h r. certSave e ht c0 cs0 = Inr (c1, cs1) \<longrightarrow>
            h \<in> set (verificationHistory c1) \<longrightarrow> h_result h = Some r \<longrightarrow>
            r \<in> set HISTORY_RESULT_values) \<and>
         ''suspended'' \<notin> set HISTORY_RESULT_values \<and>
         verifyCertificate e reqUser token d = (verifyFailed, d) \<and>
         httpStatus (fst (verifyCertificate e reqUser token d)) = 500 \<and>
         result (fst (verifyCertificate e reqUser token d)) = Some ''error''"
proof -
  have saved: "r \<in> set HISTORY_RESULT_values"
    if "certSave e ht c0 cs0 = Inr (c1, cs1)" and "h \<in> set (verificationHistory c1)"
      and "h_result h = Some r" for ht c0 cs0 c1 cs1 h r
  proof (rule ccontr)
    assume "r \<notin> set HISTORY_RESULT_values"
    then have "historyErrors h \<noteq> []"
      using that(3) by (simp add: historyErrors_def)
    moreover have "schemaErrors c0 = []" and "c1 = preSave e ht c0"
      using certSave_Inr_valid [OF that(1)] by simp_all
    ultimately show False
      using that(2) schemaErrors_history [of h c0] by simp
  qed
  have "verifyCertificate e reqUser token d = (verifyFailed, d)"
    using assms by (rule verify_suspended)
  then show ?thesis
    using saved by (simp add: verifyFailed_def HISTORY_RESULT_values_def)
qed

theorem suspended_verification_witness:
  "findByToken ''t1'' (certs (sampleDb (sampleCert\<lparr>status := ''suspended''\<rparr>))) =
     Some (sampleCert\<lparr>status := ''suspended''\<rparr>) \<and>
   verifyCertificate sampleEnv None ''t1'' (sampleDb (sampleCert\<lparr>status := ''suspended''\<rparr>)) =
     (verifyFailed, sampleDb (sampleCert\<lparr>status := ''suspended''\<rparr>))"
proof -
  let ?c = "sampleCert\<lparr>status := ''suspended''\<rparr>"
  have f: "findByToken ''t1'' (certs (sampleDb ?c)) = Some ?c"
    by (simp add: findByToken_def sampleDb_def sampleCert_def)
  show ?thesis
    using suspended_verification_is_service_error [OF f, of sampleEnv None] f by simp
qed

subsection \<open>Revocation\<close>

lemma find_map_replace:
  "find (\<lambda>x. oid x = i) cs = Some c \<Longrightarrow> oid c' = i \<Longrightarrow>
   find (\<lambda>x. oid x = i) (map (\<lambda>x. if oid x = i then c' else x) cs) = Some c'"
  by (induction cs) (auto split: if_splits)

lemma findById_upsert:
  assumes "findById i cs = Some c" and "oid c' = i"
  shows "findById i (upsert c' cs) = Some c'"
proof -
  have "list_ex (\<lambda>x. oid x = oid c') cs"
    using assms by (auto simp add: findById_def list_ex_iff find_Some_iff)
  then show ?thesis
    using assms find_map_replace [of i cs c c'] by (simp add: upsert_def findById_def)
qed

lemma findById_oid: "findById i cs = Some c \<Longrightarrow> oid c = i"
  by (auto simp add: findById_def find_Some_iff)

lemma schemaErrors_revoked:
  "schemaErrors c = [] \<Longrightarrow> length rr \<le> 500 \<Longrightarrow>
   schemaErrors (c\<lparr>status := ''revoked'', revokedAt := ra, revokedBy := rb,
                   revocationReason := Some rr\<rparr>) = []"
  by (simp add: schemaErrors_def maxlength_def CERTIFICATE_STATUS_values_def split: if_splits)

lemma reasonOrDefault_default:
  "\<not> truthy reason \<Longrightarrow> reasonOrDefault reason = ''No reason provided''"
  by (simp add: reasonOrDefault_def orElse_def trim_def isSpace_def)


lemma revoke_ok:
  assumes "findById i (certs d) = Some c"
      and "status c \<noteq> ''revoked''"
      and "schemaErrors c = []"
      and "truthy (certificateId c)" and "truthy (serialNumber c)"
      and "\<not> clashes c (certs d)"
      and "length (reasonOrDefault reason) \<le> 500"
  shows "httpStatus (fst (revokeCertificate e caller i reason d)) = 200 \<and>
         payload (fst (revokeCertificate e caller i reason d)) =
           findById i (certs (snd (revokeCertificate e caller i reason d))) \<and>
         findById i (certs (snd (revokeCertificate e caller i reason d))) =
           Some (preSave e (holder c) (c\<lparr>status := ''revoked'', revokedAt := Some (now e),
                              revokedBy := Some (uid caller),
                              revocationReason := Some (reasonOrDefault reason)\<rparr>))"
proof -
  let ?c = "c\<lparr>status := ''revoked'', revokedAt := Some (now e),
               revokedBy := Some (uid caller),
               revocationReason := Some (reasonOrDefault reason)\<rparr>"
  have v: "schemaErrors ?c = []"
    using assms(3,7) by (rule schemaErrors_revoked)
  have "clashes (preSave e (holder c) ?c) (certs d) = clashes c (certs d)"
    using assms(4,5) by (intro clashes_cong) (simp_all add: preSave_ids_kept)
  then have s: "certSave e (holder c) ?c (certs d) = Inr (preSave e (holder c) ?c, upsert (preSave e (holder c) ?c) (certs d))"
    using v assms(6) by (simp add: certSave_ok)
  have "oid (preSave e (holder c) ?c) = i"
    using findById_oid [OF assms(1)] by simp
  then have "findById i (upsert (preSave e (holder c) ?c) (certs d)) = Some (preSave e (holder c) ?c)"
    using assms(1) by (rule findById_upsert [rotated])
  then show ?thesis
    using assms(1,2) s
    by (simp add: revokeCertificate_def log_Inr succeeded_def split: sum.splits prod.splits)
qed



subsection \<open>Creation\<close>








lemma withQr_kept [simp]:
  "oid (withQr e c) = oid c"
  "certificateId (withQr e c) = certificateId c"
  "serialNumber (withQr e c) = serialNumber c"
  "title (withQr e c) = title c"
  "description (withQr e c) = description c"
  "certType (withQr e c) = certType c"
  "status (withQr e c) = status c"
  "holder (withQr e c) = holder c"
  "holderName (withQr e c) = holderName c"
  "issuedBy (withQr e c) = issuedBy c"
  "issuerName (withQr e c) = issuerName c"
  "issuingOrganization (withQr e c) = issuingOrganization c"
  "revocationReason (withQr e c) = revocationReason c"
  "digitalSignature (withQr e c) = digitalSignature c"
  "score (withQr e c) = score c"
  "credits (withQr e c) = credits c"
  "verificationHistory (withQr e c) = verificationHistory c"
  by (simp_all add: withQr_def split: option.splits sum.splits)

lemma schemaErrors_withQr [simp]: "schemaErrors (withQr e c) = schemaErrors c"
  by (simp add: schemaErrors_def)

lemma schemaErrors_preSave [simp]: "schemaErrors (preSave e ht c) = schemaErrors c"
  by (simp add: schemaErrors_def)










subsection \<open>Identifiers and checksum across saves\<close>








subsection \<open>Handlers do not depend on the audit store\<close>

lemma log_total: "\<exists>r. log e x a = Inr r"
  by (simp add: log_Inr)

lemma log_unwritable: "\<not> writable a \<Longrightarrow> log e x a = Inr (None, a)"
  by (simp add: log_def logTry_def auditSave_def Let_def)

lemma revoke_audit_free:
  "fst (revokeCertificate e caller i reason (d\<lparr>audit := a\<rparr>)) =
     fst (revokeCertificate e caller i reason d) \<and>
   certs (snd (revokeCertificate e caller i reason (d\<lparr>audit := a\<rparr>))) =
     certs (snd (revokeCertificate e caller i reason d)) \<and>
   users (snd (revokeCertificate e caller i reason (d\<lparr>audit := a\<rparr>))) =
     users (snd (revokeCertificate e caller i reason d))"
  by (simp add: revokeCertificate_def log_Inr split: option.splits sum.splits prod.splits)

lemma verify_audit_free:
  "fst (verifyCertificate e reqUser token (d\<lparr>audit := a\<rparr>)) =
     fst (verifyCertificate e reqUser token d) \<and>
   certs (snd (verifyCertificate e reqUser token (d\<lparr>audit := a\<rparr>))) =
     certs (snd (verifyCertificate e reqUser token d)) \<and>
   users (snd (verifyCertificate e reqUser token (d\<lparr>audit := a\<rparr>))) =
     users (snd (verifyCertificate e reqUser token d))"
  by (simp add: verifyCertificate_def log_Inr split: option.splits sum.splits prod.splits)

lemma create_audit_free:
  "fst (createCertificate e caller body (d\<lparr>audit := a\<rparr>)) =
     fst (createCertificate e caller body d) \<and>
   certs (snd (createCertificate e caller body (d\<lparr>audit := a\<rparr>))) =
     certs (snd (createCertificate e caller body d)) \<and>
   users (snd (createCertificate e caller body (d\<lparr>audit := a\<rparr>))) =
     users (snd (createCertificate e caller body d))"
  by (simp add: createCertificate_def log_Inr split: option.splits sum.splits prod.splits)

lemma get_audit_free:
  "fst (getCertificate e caller i (d\<lparr>audit := a\<rparr>)) = fst (getCertificate e caller i d) \<and>
   certs (snd (getCertificate e caller i (d\<lparr>audit := a\<rparr>))) =
     certs (snd (getCertificate e caller i d)) \<and>
   users (snd (getCertificate e caller i (d\<lparr>audit := a\<rparr>))) =
     users (snd (getCertificate e caller i d))"
  by (simp add: getCertificate_def log_Inr split: option.splits sum.splits prod.splits)


lemma authenticate_audit_free:
  "fst (authenticate e h (d\<lparr>audit := a\<rparr>)) = fst (authenticate e h d) \<and>
   certs (snd (authenticate e h (d\<lparr>audit := a\<rparr>))) = certs (snd (authenticate e h d)) \<and>
   users (snd (authenticate e h (d\<lparr>audit := a\<rparr>))) = users (snd (authenticate e h d))"
proof (cases "extractTokenFromHeader h")
  case None
  then show ?thesis
    by (simp add: authenticate_def log_Inr split: prod.splits)
next
  case (Some token)
  show ?thesis
  proof (cases "verifyAccessToken e token")
    case (Inl err)
    then show ?thesis
      using Some by (simp add: authenticate_def log_Inr split: prod.splits)
  next
    case (Inr decoded)
    show ?thesis
    proof (cases "Option.bind (j_userId decoded) (\<lambda>i. findUserById i (users d))")
      case None
      then show ?thesis
        using Some Inr by (simp add: authenticate_def)
    next
      case (Some u)
      then show ?thesis
        using \<open>extractTokenFromHeader h = Some token\<close> Inr
        by (simp add: authenticate_def log_Inr split: prod.splits)
    qed
  qed
qed

lemma login_audit_free:
  "fst (login e m p (d\<lparr>audit := a\<rparr>)) = fst (login e m p d) \<and>
   certs (fst (snd (login e m p (d\<lparr>audit := a\<rparr>)))) = certs (fst (snd (login e m p d))) \<and>
   users (fst (snd (login e m p (d\<lparr>audit := a\<rparr>)))) = users (fst (snd (login e m p d)))"
proof (cases "findUserByEmail m (users d)")
  case None
  then show ?thesis
    by (simp add: login_def log_Inr split: prod.splits)
next
  case (Some u)
  consider "isLocked e u" | "\<not> isLocked e u" "\<not> isActive u"
    | "\<not> isLocked e u" "isActive u" "\<not> comparePassword e u p"
    | "\<not> isLocked e u" "isActive u" "comparePassword e u p"
    by blast
  then show ?thesis
  proof cases
    case 1
    then show ?thesis
      using Some by (simp add: login_def log_Inr split: prod.splits)
  next
    case 2
    then show ?thesis
      using Some by (simp add: login_def)
  next
    case 3
    then show ?thesis
      using Some by (simp add: login_def log_Inr split: prod.splits)
  next
    case 4
    then show ?thesis
      using Some by (simp add: login_def log_Inr split: prod.splits)
  qed
qed

lemma refresh_audit_free:
  "fst (refreshToken e t (d\<lparr>audit := a\<rparr>)) = fst (refreshToken e t d) \<and>
   certs (snd (refreshToken e t (d\<lparr>audit := a\<rparr>))) = certs (snd (refreshToken e t d)) \<and>
   users (snd (refreshToken e t (d\<lparr>audit := a\<rparr>))) = users (snd (refreshToken e t d))"
  by (simp add: refreshToken_def log_Inr split: option.splits sum.splits prod.splits)

lemma createUser_audit_free:
  "fst (createUser e caller body (d\<lparr>audit := a\<rparr>)) = fst (createUser e caller body d) \<and>
   certs (snd (createUser e caller body (d\<lparr>audit := a\<rparr>))) =
     certs (snd (createUser e caller body d)) \<and>
   users (snd (createUser e caller body (d\<lparr>audit := a\<rparr>))) =
     users (snd (createUser e caller body d))"
  by (simp add: createUser_def log_Inr split: option.splits sum.splits prod.splits)

lemma assignRole_audit_free:
  "fst (assignRole e caller t r (d\<lparr>audit := a\<rparr>)) = fst (assignRole e caller t r d) \<and>
   certs (snd (assignRole e caller t r (d\<lparr>audit := a\<rparr>))) =
     certs (snd (assignRole e caller t r d)) \<and>
   users (snd (assignRole e caller t r (d\<lparr>audit := a\<rparr>))) =
     users (snd (assignRole e caller t r d))"
  by (simp add: assignRole_def log_Inr split: option.splits sum.splits prod.splits)

text \<open>
  C9. For every event and every audit store, \<^verbatim>\<open>log\<close> returns: a failure of the write
  (or of the entry's validation) ends in its \<^verbatim>\<open>catch\<close>, and on a store that cannot be
  written it returns \<^verbatim>\<open>undefined\<close> and leaves the store as it was. No handler's response
  and no write to the users or certificates depends on the audit store: with any audit store
  in place of the database's, a failing one included, each handler answers as it does with
  the working one and leaves the same documents.
\<close>

theorem audit_failure_is_contained:
  "(\<exists>r. log e x a = Inr r) \<and>
   (\<not> writable a \<longrightarrow> log e x a = Inr (None, a)) \<and>
   fst (createCertificate e caller body (d\<lparr>audit := a\<rparr>)) = fst (createCertificate e caller body d) \<and>
   certs (snd (createCertificate e caller body (d\<lparr>audit := a\<rparr>))) =
     certs (snd (createCertificate e caller body d)) \<and>
   fst (revokeCertificate e caller i reason (d\<lparr>audit := a\<rparr>)) =
     fst (revokeCertificate e caller i reason d) \<and>
   certs (snd (revokeCertificate e caller i reason (d\<lparr>audit := a\<rparr>))) =
     certs (snd (revokeCertificate e caller i reason d)) \<and>
   fst (verifyCertificate e reqUser token (d\<lparr>audit := a\<rparr>)) =
     fst (verifyCertificate e reqUser token d) \<and>
   certs (snd (verifyCertificate e reqUser token (d\<lparr>audit := a\<rparr>))) =
     certs (snd (verifyCertificate e reqUser token d)) \<and>
   fst (getCertificate e caller i (d\<lparr>audit := a\<rparr>)) = fst (getCertificate e caller i d) \<and>
   fst (authenticate e h (d\<lparr>audit := a\<rparr>)) = fst (authenticate e h d) \<and>
   fst (login e m p (d\<lparr>audit := a\<rparr>)) = fst (login e m p d) \<and>
   users (fst (snd (login e m p (d\<lparr>audit := a\<rparr>)))) = users (fst (snd (login e m p d))) \<and>
   fst (refreshToken e t (d\<lparr>audit := a\<rparr>)) = fst (refreshToken e t d) \<and>
   fst (createUser e caller ubody (d\<lparr>audit := a\<rparr>)) = fst (createUser e caller ubody d) \<and>
   users (snd (createUser e caller ubody (d\<lparr>audit := a\<rparr>))) =
     users (snd (createUser e caller ubody d)) \<and>
   fst (assignRole e caller target newRole (d\<lparr>audit := a\<rparr>)) =
     fst (assignRole e caller target newRole d) \<and>
   users (snd (assignRole e caller target newRole (d\<lparr>audit := a\<rparr>))) =
     users (snd (assignRole e caller target newRole d))"
  using log_total [of e x a] log_unwritable [of a e x]
  by (simp add: create_audit_free revoke_audit_free verify_audit_free
      get_audit_free authenticate_audit_free login_audit_free refresh_audit_free
      createUser_audit_free assignRole_audit_free)

theorem audit_failure_is_contained_witness:
  "\<not> writable \<lparr>entries = [], writable = False\<rparr> \<and>
   log sampleEnv (auditOf sampleEnv ''certificate.revoke'') \<lparr>entries = [], writable = False\<rparr> =
     Inr (None, \<lparr>entries = [], writable = False\<rparr>) \<and>
   httpStatus (fst (revokeCertificate sampleEnv (sampleUser ''a'' ADMIN) ''o1'' None
     ((sampleDb sampleCert)\<lparr>audit := \<lparr>entries = [], writable = False\<rparr>\<rparr>))) = 200"
proof -
  let ?a = "\<lparr>entries = [], writable = False\<rparr>"
  have f: "findById ''o1'' (certs (sampleDb sampleCert)) = Some sampleCert"
    by (simp add: findById_def sampleDb_def sampleCert_def)
  have v: "schemaErrors sampleCert = []"
    by (simp add: schemaErrors_def sampleCert_def maxlength_def CERTIFICATE_TYPES_values_def
        CERTIFICATE_STATUS_values_def)
  have s: "status sampleCert \<noteq> ''revoked''"
    and i1: "truthy (certificateId sampleCert)" and i2: "truthy (serialNumber sampleCert)"
    by (simp_all add: sampleCert_def)
  have nc: "\<not> clashes sampleCert (certs (sampleDb sampleCert))"
    by (simp add: clashes_def sampleDb_def)
  have l: "length (reasonOrDefault None) \<le> 500"
    by (simp add: reasonOrDefault_default)
  have ok: "httpStatus (fst (revokeCertificate sampleEnv (sampleUser ''a'' ADMIN) ''o1'' None
      (sampleDb sampleCert))) = 200"
    using revoke_ok [OF f s v i1 i2 nc l] by simp
  show ?thesis
    using audit_failure_is_contained [where e = sampleEnv
        and x = "auditOf sampleEnv ''certificate.revoke''" and a = ?a
        and caller = "sampleUser ''a'' ADMIN" and d = "sampleDb sampleCert" and i = "''o1''"
        and reason = None] ok
    by simp
qed

subsection \<open>Assigning and creating management roles\<close>

lemma find_updateOne:
  "find (\<lambda>x. uid x = i) us = Some u \<Longrightarrow> uid (f u) = i \<Longrightarrow>
   find (\<lambda>x. uid x = i) (updateOne i f us) = Some (f u)"
  by (induction us) (auto split: if_splits)










subsection \<open>Account lockout\<close>

lemma stored_after_updateOne:
  "findUserById (uid u) us = Some u \<Longrightarrow> uid (f u) = uid u \<Longrightarrow>
   findUserById (uid u) (updateOne (uid u) f us) = Some (f u)"
  using find_updateOne [of "uid u" us u f] by (simp add: findUserById_def)

lemma login_locked:
  assumes "findUserByEmail m (users d) = Some u" and "isLocked e u"
  shows "httpStatus (fst (login e m p d)) = 423 \<and>
         code (fst (login e m p d)) = Some ''ACCOUNT_LOCKED'' \<and>
         snd (snd (login e m p d)) = 0 \<and>
         users (fst (snd (login e m p d))) = users d"
  using assms by (simp add: login_def log_Inr failure_def split: prod.splits)

lemma login_wrong_password:
  assumes "findUserByEmail m (users d) = Some u" and "\<not> isLocked e u" and "isActive u"
      and "\<not> comparePassword e u p"
  shows "httpStatus (fst (login e m p d)) = 401 \<and>
         code (fst (login e m p d)) = Some ''INVALID_CREDENTIALS'' \<and>
         snd (snd (login e m p d)) = 1 \<and>
         users (fst (snd (login e m p d))) = incLoginAttempts e u (users d)"
  using assms
  by (simp add: login_def log_Inr failure_def invalidCredentials_def split: prod.splits)

lemma login_success:
  assumes "findUserByEmail m (users d) = Some u" and "\<not> isLocked e u" and "isActive u"
      and "comparePassword e u p"
  shows "httpStatus (fst (login e m p d)) = 200 \<and>
         success (fst (login e m p d)) \<and>
         snd (snd (login e m p d)) = 1 \<and>
         users (fst (snd (login e m p d))) = resetLoginAttempts e u (users d)"
  using assms by (simp add: login_def log_Inr succeeded_def split: prod.splits)

text \<open>
  C4. For the account a login finds by its email (stored under its \<^verbatim>\<open>_id\<close>):
  a failed password check with no lock that has run out stores the counter plus one and,
  when that reaches 5, \<^verbatim>\<open>lockUntil\<close> two hours after the request; while \<^verbatim>\<open>lockUntil\<close>
  is in the future the login answers 423 \<^verbatim>\<open>ACCOUNT_LOCKED\<close>, compares no password and
  changes no user; a failed password check after \<^verbatim>\<open>lockUntil\<close> has passed stores the
  counter 1 and no lock; a successful login stores the counter 0, no lock, and
  \<^verbatim>\<open>lastLogin\<close> the time of the request.
\<close>

theorem lockout_guard:
  assumes "findUserByEmail m (users d) = Some u"
      and "findUserById (uid u) (users d) = Some u"
  shows "(\<not> isLocked e u \<and> isActive u \<and> \<not> comparePassword e u p \<and>
          (\<forall>t. lockUntil u = Some t \<longrightarrow> now e \<le> t) \<longrightarrow>
            code (fst (login e m p d)) = Some ''INVALID_CREDENTIALS'' \<and>
            findUserById (uid u) (users (fst (snd (login e m p d)))) =
              Some (if 5 \<le> loginAttempts u + 1
                    then u\<lparr>loginAttempts := loginAttempts u + 1,
                           lockUntil := Some (now e + 2 * 60 * 60 * 1000)\<rparr>
                    else u\<lparr>loginAttempts := loginAttempts u + 1\<rparr>)) \<and>
         (isLocked e u \<longrightarrow>
            httpStatus (fst (login e m p d)) = 423 \<and>
            code (fst (login e m p d)) = Some ''ACCOUNT_LOCKED'' \<and>
            snd (snd (login e m p d)) = 0 \<and>
            users (fst (snd (login e m p d))) = users d) \<and>
         (isActive u \<and> \<not> comparePassword e u p \<and> (\<exists>t. lockUntil u = Some t \<and> t < now e) \<longrightarrow>
            code (fst (login e m p d)) = Some ''INVALID_CREDENTIALS'' \<and>
            findUserById (uid u) (users (fst (snd (login e m p d)))) =
              Some (u\<lparr>lockUntil := None, loginAttempts := 1\<rparr>)) \<and>
         (\<not> isLocked e u \<and> isActive u \<and> comparePassword e u p \<longrightarrow>
            httpStatus (fst (login e m p d)) = 200 \<and>
            findUserById (uid u) (users (fst (snd (login e m p d)))) =
              Some (u\<lparr>lockUntil := None, loginAttempts := 0, lastLogin := Some (now e)\<rparr>))"
proof -
  have failed: "code (fst (login e m p d)) = Some ''INVALID_CREDENTIALS'' \<and>
      findUserById (uid u) (users (fst (snd (login e m p d)))) =
        Some (if 5 \<le> loginAttempts u + 1
              then u\<lparr>loginAttempts := loginAttempts u + 1,
                     lockUntil := Some (now e + 2 * 60 * 60 * 1000)\<rparr>
              else u\<lparr>loginAttempts := loginAttempts u + 1\<rparr>)"
    if "\<not> isLocked e u" "isActive u" "\<not> comparePassword e u p"
      "\<forall>t. lockUntil u = Some t \<longrightarrow> now e \<le> t"
  proof -
    have "\<not> (case lockUntil u of None \<Rightarrow> False | Some t \<Rightarrow> t < now e)"
      using that(4) by (cases "lockUntil u") auto
    then have "findUserById (uid u) (incLoginAttempts e u (users d)) =
        Some (if 5 \<le> loginAttempts u + 1
              then u\<lparr>loginAttempts := loginAttempts u + 1,
                     lockUntil := Some (now e + 2 * 60 * 60 * 1000)\<rparr>
              else u\<lparr>loginAttempts := loginAttempts u + 1\<rparr>)"
      using that(1) assms(2)
      by (simp add: incLoginAttempts_def MAX_ATTEMPTS_def LOCK_TIME_def stored_after_updateOne)
    then show ?thesis
      using login_wrong_password [OF assms(1) that(1-3)] by simp
  qed
  have expired: "code (fst (login e m p d)) = Some ''INVALID_CREDENTIALS'' \<and>
      findUserById (uid u) (users (fst (snd (login e m p d)))) =
        Some (u\<lparr>lockUntil := None, loginAttempts := 1\<rparr>)"
    if "isActive u" "\<not> comparePassword e u p" "lockUntil u = Some t" "t < now e" for t
  proof -
    have nl: "\<not> isLocked e u"
      using that(3,4) by (simp add: isLocked_def)
    have "findUserById (uid u) (incLoginAttempts e u (users d)) =
        Some (u\<lparr>lockUntil := None, loginAttempts := 1\<rparr>)"
      using that(3,4) assms(2) by (simp add: incLoginAttempts_def stored_after_updateOne)
    then show ?thesis
      using login_wrong_password [OF assms(1) nl that(1,2)] by simp
  qed
  have good: "httpStatus (fst (login e m p d)) = 200 \<and>
      findUserById (uid u) (users (fst (snd (login e m p d)))) =
        Some (u\<lparr>lockUntil := None, loginAttempts := 0, lastLogin := Some (now e)\<rparr>)"
    if "\<not> isLocked e u" "isActive u" "comparePassword e u p"
    using login_success [OF assms(1) that] assms(2)
    by (simp add: resetLoginAttempts_def stored_after_updateOne)
  show ?thesis
    using failed expired good login_locked [OF assms(1), of e p] by blast
qed

theorem lockout_guard_witness:
  "findUserByEmail ''h@test.com''
     (users ((sampleDb sampleCert)\<lparr>users := [(sampleUser ''h'' HOLDER)\<lparr>loginAttempts := 4\<rparr>]\<rparr>)) =
     Some ((sampleUser ''h'' HOLDER)\<lparr>loginAttempts := 4\<rparr>) \<and>
   \<not> comparePassword sampleEnv ((sampleUser ''h'' HOLDER)\<lparr>loginAttempts := 4\<rparr>) ''wrong'' \<and>
   findUserById ''h'' (users (fst (snd (login sampleEnv ''h@test.com'' ''wrong''
     ((sampleDb sampleCert)\<lparr>users := [(sampleUser ''h'' HOLDER)\<lparr>loginAttempts := 4\<rparr>]\<rparr>))))) =
     Some ((sampleUser ''h'' HOLDER)\<lparr>loginAttempts := 5, lockUntil := Some 1700007200000\<rparr>) \<and>
   isLocked sampleEnv ((sampleUser ''h'' HOLDER)\<lparr>loginAttempts := 5, lockUntil := Some 1700007200000\<rparr>)"
proof -
  let ?u = "(sampleUser ''h'' HOLDER)\<lparr>loginAttempts := 4\<rparr>"
  let ?d = "(sampleDb sampleCert)\<lparr>users := [?u]\<rparr>"
  have f: "findUserByEmail ''h@test.com'' (users ?d) = Some ?u"
    by (simp add: findUserByEmail_def sampleUser_def)
  have g: "findUserById (uid ?u) (users ?d) = Some ?u"
    by (simp add: findUserById_def)
  have i: "uid ?u = ''h''" and l: "lockUntil ?u = None" and a: "isActive ?u"
    and n: "loginAttempts ?u = 4"
    by (simp_all add: sampleUser_def)
  have nl: "\<not> isLocked sampleEnv ?u"
    using l by (simp add: isLocked_def)
  have w: "\<not> comparePassword sampleEnv ?u ''wrong''"
    by (simp add: comparePassword_def sampleEnv_def sampleUser_def)
  have k: "isLocked sampleEnv (?u\<lparr>loginAttempts := 5, lockUntil := Some 1700007200000\<rparr>)"
    by (simp add: isLocked_def sampleEnv_def)
  have nw: "now sampleEnv = 1700000000000"
    by (simp add: sampleEnv_def)
  show ?thesis
    using lockout_guard [OF f g, of sampleEnv "''wrong''"] f i l a n nl w k nw by simp
qed

subsection \<open>Token verification and the type discriminator\<close>

lemma verifyAccessToken_iff:
  "verifyAccessToken e t = Inr cl \<longleftrightarrow>
     t = Signed cl (JWT_SECRET e) \<and>
     (case j_exp cl of None \<Rightarrow> True | Some x \<Rightarrow> nowSeconds e < x) \<and>
     j_aud cl = Some ''certificate-rbac-users'' \<and>
     j_iss cl = Some ''certificate-rbac-system''"
  by (cases t) (auto simp add: verifyAccessToken_def jwtVerify_def split: option.splits)

lemma verifyRefreshToken_iff:
  "verifyRefreshToken e t = Inr cl \<longleftrightarrow>
     t = Signed cl (JWT_REFRESH_SECRET e) \<and>
     (case j_exp cl of None \<Rightarrow> True | Some x \<Rightarrow> nowSeconds e < x) \<and>
     j_iss cl = Some ''certificate-rbac-system''"
  by (cases t) (auto simp add: verifyRefreshToken_def jwtVerify_def split: option.splits)

lemma authenticate_wrong_type:
  "verifyAccessToken e t = Inr cl \<Longrightarrow> j_type cl \<noteq> Some ''access'' \<Longrightarrow>
   authenticate e (Some (Bearer (Some t))) d =
     (Inl (failure 401 (Some ''TOKEN_TYPE_INVALID'') ''Invalid token type.''), d)"
  by (simp add: authenticate_def extractTokenFromHeader_def)

lemma authenticate_unverified:
  "verifyAccessToken e t = Inl err \<Longrightarrow>
   fst (authenticate e (Some (Bearer (Some t))) d) =
     Inl (if err = TokenExpiredError
          then failure 401 (Some ''TOKEN_EXPIRED'') ''Token expired. Please refresh your session.''
          else failure 401 (Some ''TOKEN_INVALID'') ''Invalid token.'')"
  by (simp add: authenticate_def extractTokenFromHeader_def log_Inr split: prod.splits)

lemma refresh_unverified:
  "verifyRefreshToken e t = Inl err \<Longrightarrow>
   refreshToken e (Some t) d =
     (failure 401 (Some ''REFRESH_TOKEN_INVALID'') ''Invalid or expired refresh token.'', d)"
  by (simp add: refreshToken_def)

text \<open>
  A token of the wrong type is not answered with \<^verbatim>\<open>TOKEN_TYPE_INVALID\<close>, and
  \<^verbatim>\<open>verifyRefreshToken\<close> does not look at the type: with the default secrets, a refresh
  token the service issued, presented as bearer token, is answered \<^verbatim>\<open>TOKEN_INVALID\<close>;
  and \<^verbatim>\<open>verifyRefreshToken\<close> returns the claims of a token of type \<^verbatim>\<open>access\<close> that
  carries the issuer and a signature under the refresh secret.
\<close>

theorem wrong_type_token_counterexample:
  "fst (authenticate sampleEnv
         (Some (Bearer (Some (generateRefreshToken sampleEnv (sampleUser ''h'' HOLDER)))))
         (sampleDb sampleCert)) =
     Inl (failure 401 (Some ''TOKEN_INVALID'') ''Invalid token.'') \<and>
   verifyRefreshToken sampleEnv
     (Signed \<lparr>j_userId = Some ''h'', j_email = None, j_role = None, j_tokenId = None,
              j_type = Some ''access'', j_iat = 0, j_exp = None,
              j_iss = Some ''certificate-rbac-system'', j_aud = None\<rparr>
        (JWT_REFRESH_SECRET sampleEnv)) =
     Inr \<lparr>j_userId = Some ''h'', j_email = None, j_role = None, j_tokenId = None,
          j_type = Some ''access'', j_iat = 0, j_exp = None,
          j_iss = Some ''certificate-rbac-system'', j_aud = None\<rparr>"
proof -
  have "verifyAccessToken sampleEnv (generateRefreshToken sampleEnv (sampleUser ''h'' HOLDER)) =
      Inl (JsonWebTokenError ''invalid signature'')"
    by (simp add: verifyAccessToken_def jwtVerify_def generateRefreshToken_def JWT_SECRET_def
        JWT_REFRESH_SECRET_def orElse_def sampleEnv_def)
  then show ?thesis
    using authenticate_unverified [of sampleEnv _ _ "sampleDb sampleCert"]
    by (simp add: verifyRefreshToken_iff)
qed

lemma issued_access_token:
  "0 < accessLifetime e \<Longrightarrow>
   \<exists>cl. verifyAccessToken e (generateAccessToken e u) = Inr cl \<and> j_type cl = Some ''access''"
  by (simp add: verifyAccessToken_def jwtVerify_def generateAccessToken_def)

lemma issued_refresh_token:
  "0 < refreshLifetime e \<Longrightarrow>
   \<exists>cl. verifyRefreshToken e (generateRefreshToken e u) = Inr cl \<and> j_type cl = Some ''refresh''"
  by (simp add: verifyRefreshToken_def jwtVerify_def generateRefreshToken_def)

lemma refresh_token_as_access:
  "JWT_SECRET e \<noteq> JWT_REFRESH_SECRET e \<Longrightarrow>
   fst (authenticate e (Some (Bearer (Some (generateRefreshToken e u)))) d) =
     Inl (failure 401 (Some ''TOKEN_INVALID'') ''Invalid token.'')"
  using authenticate_unverified [of e "generateRefreshToken e u" "JsonWebTokenError ''invalid signature''" d]
  by (simp add: verifyAccessToken_def jwtVerify_def generateRefreshToken_def)

lemma access_token_as_refresh:
  "JWT_SECRET e \<noteq> JWT_REFRESH_SECRET e \<Longrightarrow>
   refreshToken e (Some (generateAccessToken e u)) d =
     (failure 401 (Some ''REFRESH_TOKEN_INVALID'') ''Invalid or expired refresh token.'', d)"
  using refresh_unverified [of e "generateAccessToken e u" "JsonWebTokenError ''invalid signature''" d]
  by (simp add: verifyRefreshToken_def jwtVerify_def generateAccessToken_def)

text \<open>
  C5, as the code has it. \<^verbatim>\<open>verifyAccessToken\<close> accepts exactly the tokens signed under
  the access secret, not expired, with the audience and the issuer; \<^verbatim>\<open>verifyRefreshToken\<close>
  accepts only tokens signed under the refresh secret, not expired, with the issuer. The
  tokens the service issues carry the type \<^verbatim>\<open>access\<close> and \<^verbatim>\<open>refresh\<close> and pass their
  own verifier while their lifetime runs. The type is checked by \<^verbatim>\<open>authenticate\<close>: a token
  that \<^verbatim>\<open>verifyAccessToken\<close> accepts and whose type is not \<^verbatim>\<open>access\<close> is answered
  \<^verbatim>\<open>TOKEN_TYPE_INVALID\<close>; a token it rejects is answered \<^verbatim>\<open>TOKEN_EXPIRED\<close> or
  \<^verbatim>\<open>TOKEN_INVALID\<close>. When the two secrets differ, an issued refresh token presented as
  bearer token is answered \<^verbatim>\<open>TOKEN_INVALID\<close>, and an issued access token presented for
  refresh \<^verbatim>\<open>REFRESH_TOKEN_INVALID\<close>.
\<close>

theorem verifiers_and_type_check:
  "(verifyAccessToken e t = Inr cl \<longleftrightarrow>
      t = Signed cl (JWT_SECRET e) \<and>
      (case j_exp cl of None \<Rightarrow> True | Some x \<Rightarrow> nowSeconds e < x) \<and>
      j_aud cl = Some ''certificate-rbac-users'' \<and>
      j_iss cl = Some ''certificate-rbac-system'') \<and>
   (verifyRefreshToken e t = Inr cl \<longrightarrow>
      t = Signed cl (JWT_REFRESH_SECRET e) \<and>
      (case j_exp cl of None \<Rightarrow> True | Some x \<Rightarrow> nowSeconds e < x) \<and>
      j_iss cl = Some ''certificate-rbac-system'') \<and>
   (0 < accessLifetime e \<longrightarrow>
      (\<exists>c. verifyAccessToken e (generateAccessToken e u) = Inr c \<and> j_type c = Some ''access'')) \<and>
   (0 < refreshLifetime e \<longrightarrow>
      (\<exists>c. verifyRefreshToken e (generateRefreshToken e u) = Inr c \<and> j_type c = Some ''refresh'')) \<and>
   (verifyAccessToken e t = Inr cl \<and> j_type cl \<noteq> Some ''access'' \<longrightarrow>
      authenticate e (Some (Bearer (Some t))) d =
        (Inl (failure 401 (Some ''TOKEN_TYPE_INVALID'') ''Invalid token type.''), d)) \<and>
   (verifyAccessToken e t = Inl err \<longrightarrow>
      fst (authenticate e (Some (Bearer (Some t))) d) =
        Inl (if err = TokenExpiredError
             then failure 401 (Some ''TOKEN_EXPIRED'') ''Token expired. Please refresh your session.''
             else failure 401 (Some ''TOKEN_INVALID'') ''Invalid token.'')) \<and>
   (JWT_SECRET e \<noteq> JWT_REFRESH_SECRET e \<longrightarrow>
      fst (authenticate e (Some (Bearer (Some (generateRefreshToken e u)))) d) =
        Inl (failure 401 (Some ''TOKEN_INVALID'') ''Invalid token.'') \<and>
      refreshToken e (Some (generateAccessToken e u)) d =
        (failure 401 (Some ''REFRESH_TOKEN_INVALID'') ''Invalid or expired refresh token.'', d))"
  using verifyAccessToken_iff [of e t cl] verifyRefreshToken_iff [of e t cl]
    issued_access_token [of e u] issued_refresh_token [of e u]
    authenticate_wrong_type [of e t cl d] authenticate_unverified [of e t err d]
    refresh_token_as_access [of e u d] access_token_as_refresh [of e u d]
  by blast

theorem verifiers_and_type_check_witness:
  "verifyAccessToken sampleEnv
     (Signed \<lparr>j_userId = Some ''h'', j_email = None, j_role = None, j_tokenId = None,
              j_type = Some ''refresh'', j_iat = 0, j_exp = None,
              j_iss = Some ''certificate-rbac-system'', j_aud = Some ''certificate-rbac-users''\<rparr>
        (JWT_SECRET sampleEnv)) =
     Inr \<lparr>j_userId = Some ''h'', j_email = None, j_role = None, j_tokenId = None,
          j_type = Some ''refresh'', j_iat = 0, j_exp = None,
          j_iss = Some ''certificate-rbac-system'', j_aud = Some ''certificate-rbac-users''\<rparr> \<and>
   authenticate sampleEnv
     (Some (Bearer (Some
       (Signed \<lparr>j_userId = Some ''h'', j_email = None, j_role = None, j_tokenId = None,
                j_type = Some ''refresh'', j_iat = 0, j_exp = None,
                j_iss = Some ''certificate-rbac-system'', j_aud = Some ''certificate-rbac-users''\<rparr>
          (JWT_SECRET sampleEnv)))))
     (sampleDb sampleCert) =
     (Inl (failure 401 (Some ''TOKEN_TYPE_INVALID'') ''Invalid token type.''), sampleDb sampleCert)"
proof -
  let ?cl = "\<lparr>j_userId = Some ''h'', j_email = None, j_role = None, j_tokenId = None,
              j_type = Some ''refresh'', j_iat = 0, j_exp = None,
              j_iss = Some ''certificate-rbac-system'', j_aud = Some ''certificate-rbac-users''\<rparr>"
  have ty: "j_type ?cl \<noteq> Some ''access''"
    by simp
  show ?thesis
    using verifiers_and_type_check [where e = sampleEnv and cl = ?cl
        and t = "Signed ?cl (JWT_SECRET sampleEnv)" and d = "sampleDb sampleCert"] ty
    by simp
qed

end
